theory Spec2Isabelle
  imports Complex_Main "HOL-Library.List_Lexorder" "HOL-Library.Product_Lexorder"
begin

section \<open>Python strings, dates and the library functions the code calls\<close>

text \<open>
  A Python \<open>str\<close> is a sequence of Unicode code points, so it is modelled as a list of
  naturals; comparison of two strings is the lexicographic order on code points.
  \<open>ascii\<close> embeds an ASCII literal.
\<close>

type_synonym pystr = "nat list"

definition ascii :: "string \<Rightarrow> pystr" where
  "ascii s = map of_char s"

datatype date = Date (d_year: nat) (d_month: nat) (d_day: nat)

definition is_leap :: "nat \<Rightarrow> bool" where
  "is_leap y = (y mod 4 = 0 \<and> (y mod 100 \<noteq> 0 \<or> y mod 400 = 0))"

definition days_in_month :: "nat \<Rightarrow> nat \<Rightarrow> nat" where
  "days_in_month y m =
     (if m = 2 then (if is_leap y then 29 else 28)
      else if m = 4 \<or> m = 6 \<or> m = 9 \<or> m = 11 then 30 else 31)"

definition is_digit :: "nat \<Rightarrow> bool" where
  "is_digit c = (48 \<le> c \<and> c \<le> 57)"

definition is_digit19 :: "nat \<Rightarrow> bool" where
  "is_digit19 c = (49 \<le> c \<and> c \<le> 57)"

text \<open>
  \<open>datetime.datetime.strptime(s, "%Y-%m-%d").date()\<close> on ASCII input. The standard library
  matches the regular expression
  \<^verbatim>\<open>(?P<Y>\d\d\d\d)-(?P<m>1[0-2]|0[1-9]|[1-9])-(?P<d>3[0-1]|[1-2]\d|0[1-9]|[1-9]| [1-9])\<close>,
  raises \<open>ValueError\<close> when it does not match or leaves input unconverted, and again when
  the year is 0 or the day does not exist in the month. \<open>None\<close> is the \<open>ValueError\<close>.
  The alternatives of a group are tried in the order written.
\<close>

fun re_Y :: "pystr \<Rightarrow> (nat \<times> pystr) option" where
  "re_Y (a # b # c # d # rest) =
     (if is_digit a \<and> is_digit b \<and> is_digit c \<and> is_digit d
      then Some ((a - 48) * 1000 + (b - 48) * 100 + (c - 48) * 10 + (d - 48), rest)
      else None)"
| "re_Y _ = None"

fun re_m :: "pystr \<Rightarrow> (nat \<times> pystr) option" where
  "re_m (a # b # rest) =
     (if a = 49 \<and> 48 \<le> b \<and> b \<le> 50 then Some (10 + (b - 48), rest)
      else if a = 48 \<and> is_digit19 b then Some (b - 48, rest)
      else if is_digit19 a then Some (a - 48, b # rest)
      else None)"
| "re_m [a] = (if is_digit19 a then Some (a - 48, []) else None)"
| "re_m [] = None"

fun re_d :: "pystr \<Rightarrow> (nat \<times> pystr) option" where
  "re_d (a # b # rest) =
     (if a = 51 \<and> 48 \<le> b \<and> b \<le> 49 then Some (30 + (b - 48), rest)
      else if 49 \<le> a \<and> a \<le> 50 \<and> is_digit b then Some ((a - 48) * 10 + (b - 48), rest)
      else if a = 48 \<and> is_digit19 b then Some (b - 48, rest)
      else if is_digit19 a then Some (a - 48, b # rest)
      else if a = 32 \<and> is_digit19 b then Some (b - 48, rest)
      else None)"
| "re_d [a] = (if is_digit19 a then Some (a - 48, []) else None)"
| "re_d [] = None"

fun expect :: "nat \<Rightarrow> pystr \<Rightarrow> pystr option" where
  "expect c (a # rest) = (if a = c then Some rest else None)"
| "expect c [] = None"

definition strptime_ymd :: "pystr \<Rightarrow> date option" where
  "strptime_ymd s =
     (case re_Y s of None \<Rightarrow> None | Some (y, s1) \<Rightarrow>
     (case expect 45 s1 of None \<Rightarrow> None | Some s2 \<Rightarrow>
     (case re_m s2 of None \<Rightarrow> None | Some (m, s3) \<Rightarrow>
     (case expect 45 s3 of None \<Rightarrow> None | Some s4 \<Rightarrow>
     (case re_d s4 of None \<Rightarrow> None | Some (d, s5) \<Rightarrow>
        (if s5 \<noteq> [] then None
         else if y = 0 then None
         else if d > days_in_month y m then None
         else Some (Date y m d)))))))"

text \<open>
  \<open>datetime.datetime.strptime(s, "%H:%M:%S")\<close>, whose value the code discards: only
  whether it raises matters. The groups are \<^verbatim>\<open>2[0-3]|[0-1]\d|\d\<close>,
  \<^verbatim>\<open>[0-5]\d|\d\<close> and \<^verbatim>\<open>6[0-1]|[0-5]\d|\d\<close>; a second of 60 or 61
  matches and is then refused by the \<open>datetime\<close> constructor.
\<close>

fun re_H :: "pystr \<Rightarrow> (nat \<times> pystr) option" where
  "re_H (a # b # rest) =
     (if a = 50 \<and> 48 \<le> b \<and> b \<le> 51 then Some (20 + (b - 48), rest)
      else if 48 \<le> a \<and> a \<le> 49 \<and> is_digit b then Some ((a - 48) * 10 + (b - 48), rest)
      else if is_digit a then Some (a - 48, b # rest)
      else None)"
| "re_H [a] = (if is_digit a then Some (a - 48, []) else None)"
| "re_H [] = None"

fun re_M :: "pystr \<Rightarrow> (nat \<times> pystr) option" where
  "re_M (a # b # rest) =
     (if 48 \<le> a \<and> a \<le> 53 \<and> is_digit b then Some ((a - 48) * 10 + (b - 48), rest)
      else if is_digit a then Some (a - 48, b # rest)
      else None)"
| "re_M [a] = (if is_digit a then Some (a - 48, []) else None)"
| "re_M [] = None"

fun re_S :: "pystr \<Rightarrow> (nat \<times> pystr) option" where
  "re_S (a # b # rest) =
     (if a = 54 \<and> 48 \<le> b \<and> b \<le> 49 then Some (60 + (b - 48), rest)
      else if 48 \<le> a \<and> a \<le> 53 \<and> is_digit b then Some ((a - 48) * 10 + (b - 48), rest)
      else if is_digit a then Some (a - 48, b # rest)
      else None)"
| "re_S [a] = (if is_digit a then Some (a - 48, []) else None)"
| "re_S [] = None"

definition strptime_hms :: "pystr \<Rightarrow> (nat \<times> nat \<times> nat) option" where
  "strptime_hms s =
     (case re_H s of None \<Rightarrow> None | Some (h, s1) \<Rightarrow>
     (case expect 58 s1 of None \<Rightarrow> None | Some s2 \<Rightarrow>
     (case re_M s2 of None \<Rightarrow> None | Some (mi, s3) \<Rightarrow>
     (case expect 58 s3 of None \<Rightarrow> None | Some s4 \<Rightarrow>
     (case re_S s4 of None \<Rightarrow> None | Some (sec, s5) \<Rightarrow>
        (if s5 \<noteq> [] then None
         else if sec > 59 then None
         else Some (h, mi, sec)))))))"

text \<open>
  Python's whitespace (\<open>str.isspace\<close>, which \<open>str.strip()\<close> and the pattern
  \<^verbatim>\<open>\s\<close> both use on a \<open>str\<close>).
\<close>

definition isspace :: "nat \<Rightarrow> bool" where
  "isspace c =
     ((9 \<le> c \<and> c \<le> 13) \<or> (28 \<le> c \<and> c \<le> 32) \<or> c = 133 \<or> c = 160 \<or> c = 5760
      \<or> (8192 \<le> c \<and> c \<le> 8202) \<or> c = 8232 \<or> c = 8233 \<or> c = 8239 \<or> c = 8287
      \<or> c = 12288)"

text \<open>
  The parts of the interpreter and of the configuration that the code only calls:
  Unicode normalisation and case mapping, the general category test of
  \<open>unicodedata.category(c) != "Mn"\<close>, the two \<open>strptime\<close> calls (\<open>None\<close> for
  \<open>ValueError\<close>) and \<open>settings.FUZZY_THRESHOLD\<close>. They are taken as parameters, so that
  every general theorem below holds for the real tables.
\<close>

record env =
  nfc :: "pystr \<Rightarrow> pystr"
  nfd :: "pystr \<Rightarrow> pystr"
  lower :: "pystr \<Rightarrow> pystr"
  category_Mn :: "nat \<Rightarrow> bool"
  strptime_date :: "pystr \<Rightarrow> date option"
  strptime_time :: "pystr \<Rightarrow> (nat \<times> nat \<times> nat) option"
  FUZZY_THRESHOLD :: real


section \<open>The text normalizer\<close>

text \<open>
  \<open>string.punctuation\<close> followed by the two characters of the source literal, which are
  U+037E (Greek question mark) and U+00B7 (middle dot).
\<close>

definition punctuation_to_remove :: "nat list" where
  "punctuation_to_remove = [33..<48] @ [58..<65] @ [91..<97] @ [123..<127] @ [894, 183]"

definition strip :: "pystr \<Rightarrow> pystr" where
  "strip s = rev (dropWhile isspace (rev (dropWhile isspace s)))"

text \<open>\<^verbatim>\<open>re.sub(r"\s+", " ", s)\<close>: every maximal run of whitespace becomes one space.\<close>

function collapse_ws :: "pystr \<Rightarrow> pystr" where
  "collapse_ws [] = []"
| "collapse_ws (c # cs) =
     (if isspace c then 32 # collapse_ws (dropWhile isspace cs) else c # collapse_ws cs)"
  by pat_completeness auto
termination
  by (relation "measure length") (auto simp: length_dropWhile_le le_imp_less_Suc)

text \<open>
  \<open>normalize_text\<close>. The argument is a \<open>str\<close> or \<open>None\<close>, so the conversion of other
  objects is not a branch of the model; the library calls inside the \<open>try\<close> are total on
  strings, so neither is the \<open>except\<close> branch.
\<close>

definition normalize_text :: "env \<Rightarrow> pystr option \<Rightarrow> pystr option" where
  "normalize_text E text =
     (case text of
        None \<Rightarrow> None
      | Some t \<Rightarrow>
          if t = [] then Some []
          else
            let normalized_text = nfc E t;
                normalized_text = lower E normalized_text;
                decomposed = nfd E normalized_text;
                no_accents = filter (\<lambda>c. \<not> category_Mn E c) decomposed;
                normalized_text = map (\<lambda>c. if c = 962 then 963 else c) no_accents;
                normalized_text = filter (\<lambda>c. c \<notin> set punctuation_to_remove) normalized_text;
                normalized_text = strip normalized_text;
                normalized_text = collapse_ws normalized_text
            in Some normalized_text)"

section \<open>Relational predicates and statements\<close>

datatype column =
    Outage_outage_date | Outage_outage_type | Outage_outage_start
  | HospitalShift_hospital_shift_date | HospitalShift_normalized_hospital_name
  | HospitalShift_hospital_name | HospitalShift_hospital_shift_start_time
  | HospitalShift_hospital_shift_end_time
  | Screening_screening_date | Screening_screening_time
  | Movie_movie_name | Movie_normalized_movie_name | Movie_normalized_movie_name_greek
  | Movie_normalized_movie_name_english | Movie_normalized_genre | Movie_genre | Movie_year
  | Cinema_cinema_name | Hall_hall_name
  | Performance_performance_date | Performance_performance_name
  | Performance_normalized_performance_name | Performance_normalized_performance_location
  | Performance_performance_type

text \<open>
  The column expressions the builders produce: \<open>col.in_(dates)\<close>, \<open>false()\<close>,
  \<open>col == value\<close>, \<open>func.similarity(col, term) > threshold\<close>, \<open>col.op("~*")(pattern)\<close>,
  \<open>col.ilike(pattern)\<close>, \<open>col >= s\<close>, \<open>col <= s\<close>, \<open>and_(...)\<close> and \<open>or_(...)\<close>.
\<close>

datatype pred =
    InDates column "date list"
  | FalseP
  | Eq column pystr
  | EqInt column int
  | SimilarityGt column pystr real
  | RegexCI column pystr
  | ILike column pystr
  | Ge column pystr
  | Le column pystr
  | AndP "pred list"
  | OrP "pred list"

datatype direction = Asc | Desc

datatype entity = Outage | HospitalShift | Performance | Screening | Movie | Hall | Cinema

datatype selection = SelectEntity entity | SelectColumns "column list"

record select_stmt =
  selection :: selection
  joins :: "entity list"
  whereclause :: "pred option"
  is_distinct :: bool
  order_by :: "(column \<times> direction) list"

text \<open>
  Which rows a predicate keeps. A column holds a value or NULL, a comparison with NULL is
  unknown, \<open>AND\<close> and \<open>OR\<close> are three-valued, and a row is kept when the predicate is true.
  The PostgreSQL functions behind similarity and pattern matching are parameters.
\<close>

datatype sqlval = VNull | VDate date | VStr pystr | VInt int

type_synonym row = "column \<Rightarrow> sqlval"

record pg =
  similarity :: "pystr \<Rightarrow> pystr \<Rightarrow> real"
  regex_ci :: "pystr \<Rightarrow> pystr \<Rightarrow> bool"
  ilike :: "pystr \<Rightarrow> pystr \<Rightarrow> bool"

definition kleene_and :: "bool option list \<Rightarrow> bool option" where
  "kleene_and vs =
     (if Some False \<in> set vs then Some False else if None \<in> set vs then None else Some True)"

definition kleene_or :: "bool option list \<Rightarrow> bool option" where
  "kleene_or vs =
     (if Some True \<in> set vs then Some True else if None \<in> set vs then None else Some False)"

fun eval :: "pg \<Rightarrow> row \<Rightarrow> pred \<Rightarrow> bool option" where
  "eval P r (InDates c ds) = (case r c of VDate d \<Rightarrow> Some (d \<in> set ds) | _ \<Rightarrow> None)"
| "eval P r FalseP = Some False"
| "eval P r (Eq c s) = (case r c of VStr v \<Rightarrow> Some (v = s) | _ \<Rightarrow> None)"
| "eval P r (EqInt c i) = (case r c of VInt v \<Rightarrow> Some (v = i) | _ \<Rightarrow> None)"
| "eval P r (SimilarityGt c s th) =
     (case r c of VStr v \<Rightarrow> Some (similarity P v s > th) | _ \<Rightarrow> None)"
| "eval P r (RegexCI c pat) = (case r c of VStr v \<Rightarrow> Some (regex_ci P v pat) | _ \<Rightarrow> None)"
| "eval P r (ILike c pat) = (case r c of VStr v \<Rightarrow> Some (ilike P v pat) | _ \<Rightarrow> None)"
| "eval P r (Ge c s) = (case r c of VStr v \<Rightarrow> Some (v \<ge> s) | _ \<Rightarrow> None)"
| "eval P r (Le c s) = (case r c of VStr v \<Rightarrow> Some (v \<le> s) | _ \<Rightarrow> None)"
| "eval P r (AndP ps) = kleene_and (map (eval P r) ps)"
| "eval P r (OrP ps) = kleene_or (map (eval P r) ps)"

definition matches :: "pg \<Rightarrow> row \<Rightarrow> pred \<Rightarrow> bool" where
  "matches P r p = (eval P r p = Some True)"

text \<open>The rows a statement returns from those of its source: all of them without a WHERE clause.\<close>

definition selects :: "pg \<Rightarrow> select_stmt \<Rightarrow> row \<Rightarrow> bool" where
  "selects P stmt r = (case whereclause stmt of None \<Rightarrow> True | Some p \<Rightarrow> matches P r p)"


section \<open>Matching-condition builders\<close>

text \<open>
  The comprehension shared by both builders:
  \<^verbatim>\<open>[norm_term for term in terms if term != "*" and term if (norm_term := normalize_text(term))]\<close>.
\<close>

definition valid_terms_normalized :: "env \<Rightarrow> pystr list \<Rightarrow> pystr list" where
  "valid_terms_normalized E terms =
     List.map_filter
       (\<lambda>term. if term \<noteq> ascii ''*'' \<and> term \<noteq> []
               then (case normalize_text E (Some term) of
                       None \<Rightarrow> None
                     | Some norm_term \<Rightarrow> if norm_term \<noteq> [] then Some norm_term else None)
               else None)
       terms"

definition build_fuzzy_conditions :: "env \<Rightarrow> column \<Rightarrow> pystr list \<Rightarrow> real \<Rightarrow> pred list" where
  "build_fuzzy_conditions E col terms threshold =
     (let terms_n = valid_terms_normalized E terms
      in if terms_n = [] then []
         else map (\<lambda>norm_term. SimilarityGt col norm_term threshold) terms_n)"

text \<open>\<open>str.split()\<close>: the maximal runs of non-whitespace, in order.\<close>

fun split_acc :: "pystr \<Rightarrow> pystr \<Rightarrow> pystr list" where
  "split_acc [] w = (if w = [] then [] else [w])"
| "split_acc (c # cs) w =
     (if isspace c then (if w = [] then split_acc cs [] else w # split_acc cs [])
      else split_acc cs (w @ [c]))"

definition split :: "pystr \<Rightarrow> pystr list" where
  "split s = split_acc s []"

text \<open>\<open>re.escape\<close>: a backslash before each of the characters \<^verbatim>\<open>()[]{}?*+-|^$\.&~#\<close>
  and before space, tab, newline, carriage return, vertical tab and form feed.\<close>

definition re_special :: "nat list" where
  "re_special = [40, 41, 91, 93, 123, 125, 63, 42, 43, 45, 124, 94, 36, 92, 46, 38, 126, 35,
                 32, 9, 10, 13, 11, 12]"

definition re_escape :: "pystr \<Rightarrow> pystr" where
  "re_escape w = concat (map (\<lambda>c. if c \<in> set re_special then [92, c] else [c]) w)"

fun join :: "pystr \<Rightarrow> pystr list \<Rightarrow> pystr" where
  "join sep [] = []"
| "join sep [w] = w"
| "join sep (w # ws) = w @ sep @ join sep ws"

definition build_regex_conditions :: "env \<Rightarrow> column \<Rightarrow> pystr list \<Rightarrow> pred list" where
  "build_regex_conditions E col terms =
     (let terms_n = valid_terms_normalized E terms
      in if terms_n = [] then []
         else concat (map (\<lambda>norm_term.
                let words = split norm_term
                in if words \<noteq> []
                   then [RegexCI col
                           ([92, 109] @ join [92, 77, 46, 42, 92, 109] (map re_escape words)
                            @ [92, 77])]
                   else []) terms_n))"

section \<open>Per-entity filter builders\<close>

text \<open>
  The four date builders are the same text up to the column and the names of the
  variables; \<open>date_filter\<close> is that text. The loop they run over their list is
  \<open>scan_dates\<close>: \<open>valid_dates\<close> collects the entries that parse, \<open>has_attempted_dates\<close> records that an entry was neither the wildcard
  nor empty. A \<open>ValueError\<close> is caught inside the loop and the entry skipped.
\<close>

fun scan_dates :: "(pystr \<Rightarrow> date option) \<Rightarrow> pystr list \<Rightarrow> date list \<times> bool \<Rightarrow> date list \<times> bool"
  where
  "scan_dates parse [] acc = acc"
| "scan_dates parse (date_str # rest) (valid_dates, has_attempted_dates) =
     (if date_str = ascii ''*'' \<or> date_str = []
      then scan_dates parse rest (valid_dates, has_attempted_dates)
      else (case parse date_str of
              Some d \<Rightarrow> scan_dates parse rest (valid_dates @ [d], True)
            | None \<Rightarrow> scan_dates parse rest (valid_dates, True)))"

definition date_filter :: "env \<Rightarrow> column \<Rightarrow> pystr list \<Rightarrow> pred option" where
  "date_filter E col dates =
     (if dates = [ascii ''*''] then None
      else
        (case scan_dates (strptime_date E) dates ([], False) of
           (valid_dates, has_attempted_dates) \<Rightarrow>
             if valid_dates \<noteq> [] then Some (InDates col valid_dates)
             else if has_attempted_dates then Some FalseP
             else None))"

definition build_outage_date_filter :: "env \<Rightarrow> pystr list \<Rightarrow> pred option" where
  "build_outage_date_filter E outage_dates = date_filter E Outage_outage_date outage_dates"

definition build_hospital_shift_date_filter :: "env \<Rightarrow> pystr list \<Rightarrow> pred option" where
  "build_hospital_shift_date_filter E hospital_shift_dates =
     date_filter E HospitalShift_hospital_shift_date hospital_shift_dates"

definition build_screening_date_filter :: "env \<Rightarrow> pystr list \<Rightarrow> pred option" where
  "build_screening_date_filter E screening_dates =
     date_filter E Screening_screening_date screening_dates"

definition build_performance_date_filter :: "env \<Rightarrow> pystr list \<Rightarrow> pred option" where
  "build_performance_date_filter E performance_dates =
     date_filter E Performance_performance_date performance_dates"

subsection \<open>Outages\<close>

definition build_outage_type_filter :: "pystr option \<Rightarrow> pred option" where
  "build_outage_type_filter outage_type =
     (case outage_type of
        None \<Rightarrow> None
      | Some t \<Rightarrow> if t = ascii ''*'' \<or> t = [] then None else Some (Eq Outage_outage_type t))"

definition build_outage_location_filter :: "pystr list \<Rightarrow> pred option" where
  "build_outage_location_filter locations = None"

definition build_outage_affected_areas_filter :: "pystr list \<Rightarrow> pred option" where
  "build_outage_affected_areas_filter affected_areas = None"

subsection \<open>Hospital shifts\<close>

definition build_hospital_name_filter :: "env \<Rightarrow> pystr list \<Rightarrow> pred option" where
  "build_hospital_name_filter E hospital_names =
     (if hospital_names = [ascii ''*''] then None
      else
        let regex_conditions =
              build_regex_conditions E HospitalShift_normalized_hospital_name hospital_names;
            fuzzy_threshold = FUZZY_THRESHOLD E;
            fuzzy_conditions =
              build_fuzzy_conditions E HospitalShift_normalized_hospital_name hospital_names
                fuzzy_threshold;
            all_conditions = regex_conditions @ fuzzy_conditions
        in if all_conditions = [] then None
           else if length all_conditions = 1 then Some (hd all_conditions)
           else Some (OrP all_conditions))"

definition build_specialties_filter :: "pystr list \<Rightarrow> pred option" where
  "build_specialties_filter specialties =
     (if specialties = [ascii ''*''] \<or> specialties = [] \<or> specialties = [] then None
      else None)"

definition build_hospital_shift_time_filter :: "env \<Rightarrow> pystr \<Rightarrow> pystr \<Rightarrow> pred option" where
  "build_hospital_shift_time_filter E start_time_str end_time_str =
     (let time_conditions = [];
          time_conditions =
            (if start_time_str \<noteq> ascii ''*''
             then (case strptime_time E start_time_str of
                     Some _ \<Rightarrow>
                       time_conditions @ [Ge HospitalShift_hospital_shift_start_time start_time_str]
                   | None \<Rightarrow> time_conditions)
             else time_conditions);
          time_conditions =
            (if end_time_str \<noteq> ascii ''*''
             then (case strptime_time E end_time_str of
                     Some _ \<Rightarrow>
                       time_conditions @ [Le HospitalShift_hospital_shift_end_time end_time_str]
                   | None \<Rightarrow> time_conditions)
             else time_conditions)
      in if time_conditions = [] then None
         else if length time_conditions = 1 then Some (hd time_conditions)
         else Some (AndP time_conditions))"

subsection \<open>Screenings\<close>

definition build_movie_filter :: "env \<Rightarrow> pystr list \<Rightarrow> pred option" where
  "build_movie_filter E movies =
     (if movies = [ascii ''*''] then None
      else
        let all_movie_conditions = [];
            conditions_primary =
              build_fuzzy_conditions E Movie_normalized_movie_name movies (FUZZY_THRESHOLD E);
            all_movie_conditions = all_movie_conditions @ conditions_primary;
            conditions_greek =
              build_fuzzy_conditions E Movie_normalized_movie_name_greek movies
                (FUZZY_THRESHOLD E);
            all_movie_conditions = all_movie_conditions @ conditions_greek;
            conditions_english =
              build_fuzzy_conditions E Movie_normalized_movie_name_english movies
                (FUZZY_THRESHOLD E);
            all_movie_conditions = all_movie_conditions @ conditions_english
        in if all_movie_conditions \<noteq> [] then Some (OrP all_movie_conditions) else None)"

definition build_genre_filter :: "env \<Rightarrow> pystr list \<Rightarrow> pred option" where
  "build_genre_filter E genres =
     (if genres = [ascii ''*''] \<or> genres = [] then None
      else
        let regex_conditions = build_regex_conditions E Movie_normalized_genre genres;
            fuzzy_conditions =
              build_fuzzy_conditions E Movie_normalized_genre genres (FUZZY_THRESHOLD E);
            all_genre_conditions = regex_conditions @ fuzzy_conditions
        in if all_genre_conditions \<noteq> [] then Some (OrP all_genre_conditions) else None)"

definition build_year_filter :: "int option \<Rightarrow> pred option" where
  "build_year_filter year = (case year of None \<Rightarrow> None | Some y \<Rightarrow> Some (EqInt Movie_year y))"

definition build_cinema_filter :: "env \<Rightarrow> pystr list \<Rightarrow> pred option" where
  "build_cinema_filter E cinemas =
     (if cinemas = [ascii ''*''] then None
      else
        let cinema_conditions =
              concat (map (\<lambda>cinema_name.
                if cinema_name = ascii ''*'' \<or> cinema_name = [] then []
                else [OrP [SimilarityGt Cinema_cinema_name cinema_name (FUZZY_THRESHOLD E),
                           ILike Cinema_cinema_name ([37] @ cinema_name @ [37])]])
                cinemas)
        in if cinema_conditions \<noteq> [] then Some (OrP cinema_conditions) else None)"

subsection \<open>Performances\<close>

definition build_performance_name_filter :: "env \<Rightarrow> pystr list \<Rightarrow> pred option" where
  "build_performance_name_filter E performance_names =
     (if performance_names = [ascii ''*''] then None
      else
        let name_conditions =
              build_fuzzy_conditions E Performance_normalized_performance_name performance_names
                (FUZZY_THRESHOLD E)
        in if name_conditions \<noteq> [] then Some (OrP name_conditions) else None)"

definition build_performance_location_filter :: "env \<Rightarrow> pystr list \<Rightarrow> pred option" where
  "build_performance_location_filter E performance_locations =
     (if performance_locations = [ascii ''*''] then None
      else
        let location_conditions =
              build_fuzzy_conditions E Performance_normalized_performance_location
                performance_locations (FUZZY_THRESHOLD E)
        in if location_conditions \<noteq> [] then Some (OrP location_conditions) else None)"

definition build_performance_type_filter :: "pystr option \<Rightarrow> pred option" where
  "build_performance_type_filter performance_type =
     (case performance_type of
        None \<Rightarrow> None
      | Some t \<Rightarrow>
          if t = ascii ''*'' \<or> t = [] then None else Some (Eq Performance_performance_type t))"


section \<open>Statement assemblers\<close>

text \<open>\<^verbatim>\<open>if f is not None: filters.append(f)\<close>\<close>

definition append_filter :: "pred list \<Rightarrow> pred option \<Rightarrow> pred list" where
  "append_filter filters f = (case f of None \<Rightarrow> filters | Some p \<Rightarrow> filters @ [p])"

text \<open>\<^verbatim>\<open>if filters: stmt = stmt.where(and_(*filters))\<close>\<close>

definition apply_filters :: "select_stmt \<Rightarrow> pred list \<Rightarrow> select_stmt" where
  "apply_filters stmt filters =
     (if filters \<noteq> [] then stmt\<lparr>whereclause := Some (AndP filters)\<rparr> else stmt)"

definition select :: "selection \<Rightarrow> select_stmt" where
  "select sel =
     \<lparr>selection = sel, joins = [], whereclause = None, is_distinct = False, order_by = []\<rparr>"

definition build_outages_statement ::
  "env \<Rightarrow> pystr list \<Rightarrow> pystr option \<Rightarrow> pystr list \<Rightarrow> pystr list \<Rightarrow> select_stmt" where
  "build_outages_statement E outage_dates outage_type locations affected_areas =
     (let stmt = select (SelectEntity Outage);
          filters = [];
          filters = append_filter filters (build_outage_date_filter E outage_dates);
          filters = append_filter filters (build_outage_type_filter outage_type);
          filters = append_filter filters (build_outage_location_filter locations);
          filters = append_filter filters (build_outage_affected_areas_filter affected_areas);
          stmt = apply_filters stmt filters
      in stmt\<lparr>order_by := [(Outage_outage_date, Desc), (Outage_outage_start, Desc)]\<rparr>)"

definition build_hospital_shifts_statement ::
  "env \<Rightarrow> pystr list \<Rightarrow> pystr list \<Rightarrow> pystr \<Rightarrow> pystr \<Rightarrow> pystr list \<Rightarrow> bool \<Rightarrow> select_stmt"
  where
  "build_hospital_shifts_statement E hospital_shift_dates hospital_names
       hospital_shifts_start_time hospital_shifts_end_time specialties include_contact_info =
     (let stmt = select (SelectEntity HospitalShift);
          filters = [];
          filters = append_filter filters
                      (build_hospital_shift_date_filter E hospital_shift_dates);
          filters = append_filter filters (build_hospital_name_filter E hospital_names);
          filters = append_filter filters
                      (build_hospital_shift_time_filter E hospital_shifts_start_time
                         hospital_shifts_end_time);
          filters = append_filter filters (build_specialties_filter specialties);
          stmt = apply_filters stmt filters
      in stmt\<lparr>order_by := [(HospitalShift_hospital_shift_date, Asc),
                           (HospitalShift_hospital_name, Asc)]\<rparr>)"

definition build_cinemas_statement ::
  "env \<Rightarrow> pystr list \<Rightarrow> pystr list \<Rightarrow> pystr list \<Rightarrow> bool \<Rightarrow> pystr list \<Rightarrow> int option
     \<Rightarrow> select_stmt" where
  "build_cinemas_statement E screening_dates movies cinemas halls_and_screening_times genres
       year =
     (let select_columns =
            (if halls_and_screening_times
             then [Screening_screening_date, Screening_screening_time, Movie_movie_name,
                   Cinema_cinema_name, Hall_hall_name, Movie_genre, Movie_year]
             else [Screening_screening_date, Movie_movie_name, Cinema_cinema_name,
                   Movie_genre, Movie_year]);
          stmt = select (SelectColumns select_columns);
          stmt = stmt\<lparr>joins := [Screening, Movie, Hall, Cinema]\<rparr>;
          filters = [];
          filters = append_filter filters (build_screening_date_filter E screening_dates);
          filters = append_filter filters (build_movie_filter E movies);
          filters = append_filter filters (build_cinema_filter E cinemas);
          filters = append_filter filters (build_genre_filter E genres);
          filters = append_filter filters (build_year_filter year);
          stmt = apply_filters stmt filters;
          stmt = (if \<not> halls_and_screening_times then stmt\<lparr>is_distinct := True\<rparr> else stmt);
          order_columns = [(Screening_screening_date, Asc), (Cinema_cinema_name, Asc),
                           (Movie_movie_name, Asc)];
          order_columns =
            (if halls_and_screening_times
             then order_columns @ [(Screening_screening_time, Asc)] else order_columns)
      in stmt\<lparr>order_by := order_columns\<rparr>)"

definition build_performances_statement ::
  "env \<Rightarrow> pystr list \<Rightarrow> pystr list \<Rightarrow> pystr list \<Rightarrow> pystr option \<Rightarrow> select_stmt" where
  "build_performances_statement E performance_dates performance_names performance_locations
       performance_type =
     (let stmt = select (SelectEntity Performance);
          filters = [];
          filters = append_filter filters (build_performance_date_filter E performance_dates);
          filters = append_filter filters (build_performance_name_filter E performance_names);
          filters = append_filter filters
                      (build_performance_location_filter E performance_locations);
          filters = append_filter filters (build_performance_type_filter performance_type);
          stmt = apply_filters stmt filters
      in stmt\<lparr>order_by := [(Performance_performance_date, Asc),
                           (Performance_performance_name, Asc)]\<rparr>)"

section \<open>The sequential transactional executor\<close>

text \<open>
  A tool invocation is its \<open>name\<close> and its other fields (\<open>model_dump(exclude={"name"})\<close>).
  \<open>TOOL_REGISTRY\<close> and \<open>TOOL_FORMATTERS\<close> are the two module-level dictionaries the
  executor looks names up in; a registered tool function is awaited on the parameters and
  the session and either raises (\<open>Inl\<close>) or returns its raw rows; a formatter receives the
  raw rows, and for the tool named \<open>cinemas\<close> also the flag read from the parameters.
\<close>

record 'p tool_call =
  name :: pystr
  params :: 'p

datatype 'r tool_result = Formatted pystr | ErrorObj pystr | Raw 'r

datatype tx_state = Idle | InTransaction | Committed | RolledBack

type_synonym ('p, 'db, 'x, 'r) registry = "pystr \<Rightarrow> ('p \<Rightarrow> 'db \<Rightarrow> 'x + 'r) option"

type_synonym ('x, 'r) formatters = "pystr \<Rightarrow> ('r \<Rightarrow> bool option \<Rightarrow> 'x + pystr) option"

text \<open>
  The state the loop works on: the dictionary \<open>all_tool_results\<close>, the invocations whose
  tool function has been awaited so far (a ghost log, oldest first), and the transaction.
\<close>

record ('p, 'r) exec_state =
  all_tool_results :: "pystr \<Rightarrow> 'r tool_result option"
  awaited :: "'p tool_call list"
  tx :: tx_state

definition quoted :: "pystr \<Rightarrow> pystr \<Rightarrow> pystr \<Rightarrow> pystr" where
  "quoted pre s post = pre @ [39] @ s @ [39] @ post"

text \<open>
  One invocation's entry in the dictionary when its tool function returned \<open>raw_results\<close>:
  the formatted text, the error object of a formatter that raised, or the raw rows when
  the tool has no formatter.
\<close>

definition format_entry ::
  "('x, 'r) formatters \<Rightarrow> ('p \<Rightarrow> bool) \<Rightarrow> 'p tool_call \<Rightarrow> 'r \<Rightarrow> 'r tool_result" where
  "format_entry F flag tool_call raw_results =
     (let tool_name = name tool_call; tool_params = params tool_call
      in case F tool_name of
           Some formatter \<Rightarrow>
             (case (if tool_name = ascii ''cinemas''
                    then formatter raw_results (Some (flag tool_params))
                    else formatter raw_results None) of
                Inr formatted_results \<Rightarrow> Formatted formatted_results
              | Inl fmt_e \<Rightarrow>
                  ErrorObj (quoted (ascii ''Failed to format results for tool '') tool_name
                              (ascii ''.'')))
         | None \<Rightarrow> Raw raw_results)"

text \<open>
  The \<open>for\<close> loop. It returns the exception that left it (or \<open>None\<close>) and the state at
  that moment. \<open>flag\<close> is \<open>tool_params.get("halls_and_screening_times", False)\<close>.
\<close>

fun run_tool_calls ::
  "('p, 'db, 'x, 'r) registry \<Rightarrow> ('x, 'r) formatters \<Rightarrow> ('p \<Rightarrow> bool) \<Rightarrow> 'db
     \<Rightarrow> 'p tool_call list \<Rightarrow> ('p, 'r) exec_state \<Rightarrow> 'x option \<times> ('p, 'r) exec_state" where
  "run_tool_calls R F flag db [] st = (None, st)"
| "run_tool_calls R F flag db (tool_call # rest) st =
     (let tool_name = name tool_call; tool_params = params tool_call
      in case R tool_name of
           None \<Rightarrow>
             run_tool_calls R F flag db rest
               (st\<lparr>all_tool_results := (all_tool_results st)
                      (tool_name \<mapsto> ErrorObj (quoted (ascii ''Tool '') tool_name
                                                 (ascii '' not available.'')))\<rparr>)
         | Some tool_func \<Rightarrow>
             (case tool_func tool_params db of
                Inl e \<Rightarrow>
                  (Some e,
                   st\<lparr>awaited := awaited st @ [tool_call],
                      all_tool_results := (all_tool_results st)
                        (tool_name \<mapsto> ErrorObj (quoted (ascii ''Failed to execute tool '')
                                                   tool_name (ascii ''.'')))\<rparr>)
              | Inr raw_results \<Rightarrow>
                  run_tool_calls R F flag db rest
                    (st\<lparr>awaited := awaited st @ [tool_call],
                        all_tool_results := (all_tool_results st)
                          (tool_name \<mapsto> format_entry F flag tool_call raw_results)\<rparr>)))"

text \<open>
  \<open>execute_tools_sequentially\<close>. \<open>async with db.begin()\<close> opens the transaction, commits
  it when the block is left normally and rolls it back when an exception leaves it, which
  then reaches the caller (\<open>Inl\<close>) in place of the dictionary. The final state is returned
  beside the result so that the transaction and the log can be read.
\<close>

definition execute_tools_sequentially ::
  "('p, 'db, 'x, 'r) registry \<Rightarrow> ('x, 'r) formatters \<Rightarrow> ('p \<Rightarrow> bool) \<Rightarrow> 'p tool_call list
     \<Rightarrow> 'db \<Rightarrow> ('x + (pystr \<Rightarrow> 'r tool_result option)) \<times> ('p, 'r) exec_state" where
  "execute_tools_sequentially R F flag tool_calls db =
     (let st0 = \<lparr>all_tool_results = Map.empty, awaited = [], tx = InTransaction\<rparr>
      in case run_tool_calls R F flag db tool_calls st0 of
           (Some e, st) \<Rightarrow> (Inl e, st\<lparr>tx := RolledBack\<rparr>)
         | (None, st) \<Rightarrow> (Inr (all_tool_results st), st\<lparr>tx := Committed\<rparr>))"


section \<open>Result formatters\<close>

text \<open>
  The formatters group their rows in dictionaries, which keep insertion order, and then
  iterate over \<open>sorted(d.items())\<close>. The model keeps what that iteration emits: for each
  section the header's \<open>date_str\<close> and the rows below it, in the order rendered.
  How one row becomes a line of text is plain string concatenation and is not modelled.
\<close>

type_synonym pytime = "nat \<times> nat \<times> nat"

definition pad2 :: "nat \<Rightarrow> pystr" where
  "pad2 n = [48 + n div 10 mod 10, 48 + n mod 10]"

definition pad4 :: "nat \<Rightarrow> pystr" where
  "pad4 n = [48 + n div 1000 mod 10, 48 + n div 100 mod 10, 48 + n div 10 mod 10, 48 + n mod 10]"

text \<open>\<open>d.strftime("%d/%m/%Y")\<close> for a year of four digits, and \<open>t.strftime("%H:%M")\<close>.\<close>

definition strftime_dmy :: "date \<Rightarrow> pystr" where
  "strftime_dmy d = pad2 (d_day d) @ [47] @ pad2 (d_month d) @ [47] @ pad4 (d_year d)"

definition strftime_HM :: "pytime \<Rightarrow> pystr" where
  "strftime_HM t = (case t of (h, m, s) \<Rightarrow> pad2 h @ [58] @ pad2 m)"

text \<open>The literals for a missing date, time and hall (Greek, as code points).\<close>

definition unknown_date :: pystr where
  "unknown_date = [902, 947, 957, 969, 963, 964, 951, 32,
                   919, 956, 949, 961, 959, 956, 951, 957, 943, 945]"

definition unknown_time :: pystr where
  "unknown_time = [902, 947, 957, 969, 963, 964, 951, 32, 911, 961, 945]"

definition unknown_hall :: pystr where
  "unknown_hall = [902, 947, 957, 969, 963, 964, 951, 32, 913, 943, 952, 959, 965, 963, 945]"

definition date_str_of :: "date option \<Rightarrow> pystr" where
  "date_str_of d = (case d of Some x \<Rightarrow> strftime_dmy x | None \<Rightarrow> unknown_date)"

text \<open>
  \<open>d[k] = f(d[k])\<close> on an insertion-ordered dictionary, where a missing key starts from
  \<open>dflt\<close> (the \<open>if k not in d: d[k] = []\<close> of the code, or the \<open>defaultdict\<close>).
\<close>

fun upd :: "'k \<Rightarrow> ('v \<Rightarrow> 'v) \<Rightarrow> 'v \<Rightarrow> ('k \<times> 'v) list \<Rightarrow> ('k \<times> 'v) list" where
  "upd k f dflt [] = [(k, f dflt)]"
| "upd k f dflt ((k', v) # rest) =
     (if k' = k then (k', f v) # rest else (k', v) # upd k f dflt rest)"

datatype 'a formatted = NotFound | Found "(pystr \<times> 'a) list"

record outage_row =
  outage_date :: "date option"
  outage_type :: "pystr option"
  outage_location :: "pystr option"
  outage_affected_areas :: "pystr option"
  outage_start :: "pytime option"
  outage_end :: "pytime option"

definition none_last :: "pytime option \<Rightarrow> bool \<times> pytime" where
  "none_last t = (case t of None \<Rightarrow> (True, (0, 0, 0)) | Some x \<Rightarrow> (False, x))"

definition format_outages :: "outage_row list \<Rightarrow> outage_row list formatted" where
  "format_outages outages =
     (if outages = [] then NotFound
      else
        let outages_by_date =
              foldl (\<lambda>d outage. upd (date_str_of (outage_date outage)) (\<lambda>l. l @ [outage]) [] d)
                [] outages
        in Found (map (\<lambda>(date_str, daily_outages).
                     (date_str, sort_key (\<lambda>x. none_last (outage_start x)) daily_outages))
                   (sort_key fst outages_by_date)))"

record performance_row =
  performance_date :: "date option"
  performance_name :: "pystr option"
  performance_location :: "pystr option"
  performance_type :: "pystr option"
  performance_start_time :: "pytime option"

definition or_empty :: "pystr option \<Rightarrow> pystr" where
  "or_empty s = (case s of None \<Rightarrow> [] | Some x \<Rightarrow> x)"

text \<open>A result row is a tuple holding one object; \<open>None\<close> stands for an empty tuple.\<close>

definition format_performances ::
  "performance_row option list \<Rightarrow> performance_row list formatted" where
  "format_performances performances =
     (if performances = [] then NotFound
      else
        let performances_by_date =
              foldl (\<lambda>d perf_tuple.
                       case perf_tuple of
                         None \<Rightarrow> d
                       | Some perf \<Rightarrow>
                           upd (date_str_of (performance_date perf)) (\<lambda>l. l @ [perf]) [] d)
                [] performances
        in Found (map (\<lambda>(date_str, daily_performances).
                     (date_str,
                      sort_key (\<lambda>p. (none_last (performance_start_time p),
                                       or_empty (performance_name p)))
                        daily_performances))
                   (sort_key fst performances_by_date)))"

record hospital_shift_row =
  hospital_shift_date :: "date option"
  hospital_name :: "pystr option"
  hospital_shift_start_time :: "pytime option"
  hospital_shift_end_time :: "pytime option"
  specialties :: "pystr option"
  address :: "pystr option"
  phone_number :: "pystr option"

definition format_hospital_shifts ::
  "hospital_shift_row list \<Rightarrow> hospital_shift_row list formatted" where
  "format_hospital_shifts shifts =
     (if shifts = [] then NotFound
      else
        let shifts_by_date =
              foldl (\<lambda>d shift. upd (date_str_of (hospital_shift_date shift)) (\<lambda>l. l @ [shift]) [] d)
                [] shifts
        in Found (map (\<lambda>(date_str, daily_shifts).
                     (date_str, sort_key (\<lambda>s. or_empty (hospital_name s)) daily_shifts))
                   (sort_key fst shifts_by_date)))"

text \<open>
  Screening rows are tuples of seven fields (date, time, movie, cinema, hall, genre, year)
  or of five (date, movie, cinema, genre, year). Unpacking a tuple of the other length
  raises \<open>ValueError\<close>, which the loop catches, skipping the row. Movie and cinema names
  are strings, as the joined columns are. Below a date the cinemas are listed, below a
  cinema its movies, and in detailed mode each movie carries its (time, hall) pairs.
\<close>

datatype screening_row =
    ScreeningRow "date option" "pytime option" pystr pystr "pystr option" "pystr option"
      "int option"
  | ScreeningRowNoTime "date option" pystr pystr "pystr option" "int option"

type_synonym movies_data = "(pystr \<times> (pystr \<times> pystr) list) list"

type_synonym cinemas_data = "(pystr \<times> movies_data) list"

fun group_screening ::
  "bool \<Rightarrow> (pystr \<times> cinemas_data) list \<Rightarrow> screening_row \<Rightarrow> (pystr \<times> cinemas_data) list" where
  "group_screening True g (ScreeningRow date_obj time_obj movie cinema hall genre year) =
     (let date_str = date_str_of date_obj;
          time_str = (case time_obj of Some t \<Rightarrow> strftime_HM t | None \<Rightarrow> unknown_time);
          hall_str = (case hall of Some h \<Rightarrow> if h = [] then unknown_hall else h
                      | None \<Rightarrow> unknown_hall)
      in upd date_str (upd cinema (upd movie (\<lambda>l. l @ [(time_str, hall_str)]) []) []) [] g)"
| "group_screening True g (ScreeningRowNoTime date_obj movie cinema genre year) = g"
| "group_screening False g (ScreeningRowNoTime date_obj movie cinema genre year) =
     upd (date_str_of date_obj) (upd cinema (upd movie (\<lambda>l. []) []) []) [] g"
| "group_screening False g (ScreeningRow date_obj time_obj movie cinema hall genre year) = g"

definition format_screenings :: "screening_row list \<Rightarrow> bool \<Rightarrow> cinemas_data formatted" where
  "format_screenings screenings halls_and_screening_times =
     (if screenings = [] then NotFound
      else
        let grouped_screenings =
              foldl (group_screening halls_and_screening_times) [] screenings
        in Found (map (\<lambda>(date_str, cinemas_data).
                     (date_str,
                      map (\<lambda>(cinema, movies_data).
                             (cinema,
                              map (\<lambda>(movie, details). (movie, sort_key fst details))
                                (sort_key fst movies_data)))
                        (sort_key fst cinemas_data)))
                   (sort_key fst grouped_screenings)))"

section \<open>A fragment of the interpreter's tables\<close>

text \<open>
  Concrete library functions, for evaluating the code on concrete inputs. The Unicode part
  covers the strings over ASCII, the two lower-case sigmas U+03C2 and U+03C3, the combining
  grapheme joiner U+034F (category Mn, combining class 0) and the two spacing marks U+302E
  (category Mc, combining class 224) and U+1D165 (category Mc, combining class 216). None
  of these characters decomposes or composes, so on such strings both normal forms are the
  canonical reordering of combining marks, and lower-casing changes the letters A to Z only.
\<close>

definition ccc :: "nat \<Rightarrow> nat" where
  "ccc c = (if c = 12334 then 224 else if c = 119141 then 216 else 0)"

fun ins_mark :: "nat \<Rightarrow> pystr \<Rightarrow> pystr" where
  "ins_mark c [] = [c]"
| "ins_mark c (d # ds) =
     (if ccc c > ccc d \<and> ccc d > 0 then d # ins_mark c ds else c # d # ds)"

fun canonical_order :: "pystr \<Rightarrow> pystr" where
  "canonical_order [] = []"
| "canonical_order (c # cs) = ins_mark c (canonical_order cs)"

definition ascii_lower :: "pystr \<Rightarrow> pystr" where
  "ascii_lower s = map (\<lambda>c. if 65 \<le> c \<and> c \<le> 90 then c + 32 else c) s"

definition cpython :: env where
  "cpython =
     \<lparr>nfc = canonical_order, nfd = canonical_order, lower = ascii_lower,
      category_Mn = (\<lambda>c. c = 847),
      strptime_date = strptime_ymd, strptime_time = strptime_hms,
      FUZZY_THRESHOLD = 0.1\<rparr>"


section \<open>Notions used in the statements\<close>

text \<open>The entries of a list field that are neither the wildcard nor empty, and those of
  them that parse as dates, in the order of the list.\<close>

definition attempted :: "pystr list \<Rightarrow> pystr list" where
  "attempted entries = filter (\<lambda>s. s \<noteq> ascii ''*'' \<and> s \<noteq> []) entries"

definition parsed_dates :: "env \<Rightarrow> pystr list \<Rightarrow> date list" where
  "parsed_dates E entries = List.map_filter (strptime_date E) (attempted entries)"

text \<open>The four date builders with the column each of them filters.\<close>

definition date_builders :: "(column \<times> (env \<Rightarrow> pystr list \<Rightarrow> pred option)) list" where
  "date_builders =
     [(Outage_outage_date, build_outage_date_filter),
      (Screening_screening_date, build_screening_date_filter),
      (HospitalShift_hospital_shift_date, build_hospital_shift_date_filter),
      (Performance_performance_date, build_performance_date_filter)]"

definition only_wildcards :: "pystr list \<Rightarrow> bool" where
  "only_wildcards entries = list_all (\<lambda>s. s = ascii ''*'' \<or> s = []) entries"

definition wildcard_scalar :: "pystr option \<Rightarrow> bool" where
  "wildcard_scalar v = (v = None \<or> v = Some (ascii ''*'') \<or> v = Some [])"

text \<open>Whether the tool of an invocation is registered, whether awaiting it raises, and the
  entry a completed invocation leaves in the dictionary.\<close>

definition registered :: "('p, 'db, 'x, 'r) registry \<Rightarrow> 'p tool_call \<Rightarrow> bool" where
  "registered R c = (R (name c) \<noteq> None)"

definition raises :: "('p, 'db, 'x, 'r) registry \<Rightarrow> 'db \<Rightarrow> 'p tool_call \<Rightarrow> bool" where
  "raises R db c =
     (case R (name c) of None \<Rightarrow> False
      | Some tool_func \<Rightarrow> (case tool_func (params c) db of Inl e \<Rightarrow> True | Inr raw \<Rightarrow> False))"

definition not_available :: "pystr \<Rightarrow> 'r tool_result" where
  "not_available tool_name =
     ErrorObj (quoted (ascii ''Tool '') tool_name (ascii '' not available.''))"

definition entry ::
  "('p, 'db, 'x, 'r) registry \<Rightarrow> ('x, 'r) formatters \<Rightarrow> ('p \<Rightarrow> bool) \<Rightarrow> 'db \<Rightarrow> 'p tool_call
     \<Rightarrow> 'r tool_result" where
  "entry R F flag db c =
     (case R (name c) of
        None \<Rightarrow> not_available (name c)
      | Some tool_func \<Rightarrow>
          (case tool_func (params c) db of
             Inr raw_results \<Rightarrow> format_entry F flag c raw_results
           | Inl e \<Rightarrow>
               ErrorObj (quoted (ascii ''Failed to execute tool '') (name c) (ascii ''.''))))"

text \<open>Concrete data for evaluating the code: PostgreSQL functions that never match, rows
  that hold a date in every date column, a registry of three tools of which the one named
  \<open>cinemas\<close> raises and the others return a number of rows that depends on the parameter,
  and formatters that render one character for each row.\<close>

definition pg_none :: pg where
  "pg_none = \<lparr>similarity = (\<lambda>v s. 0), regex_ci = (\<lambda>v p. False), ilike = (\<lambda>v p. False)\<rparr>"

definition row_on :: "date \<Rightarrow> row" where
  "row_on d c =
     (if c = Outage_outage_date \<or> c = HospitalShift_hospital_shift_date
         \<or> c = Screening_screening_date \<or> c = Performance_performance_date
      then VDate d else VNull)"

datatype exn = ValueError

definition test_registry :: "(nat, unit, exn, nat) registry" where
  "test_registry tool_name =
     (if tool_name = ascii ''outages'' then Some (\<lambda>p db. Inr p)
      else if tool_name = ascii ''cinemas'' then Some (\<lambda>p db. Inl ValueError)
      else if tool_name = ascii ''performances'' then Some (\<lambda>p db. Inr (2 * p))
      else None)"

definition test_formatters :: "(exn, nat) formatters" where
  "test_formatters tool_name =
     (if tool_name = ascii ''outages'' \<or> tool_name = ascii ''performances''
      then Some (\<lambda>raw flag. Inr (replicate raw 35))
      else None)"

definition call :: "string \<Rightarrow> nat \<Rightarrow> nat tool_call" where
  "call s p = \<lparr>name = ascii s, params = p\<rparr>"


text \<open>The dictionary after every invocation of a list has left its entry, in order.\<close>

definition record_all ::
  "('p, 'db, 'x, 'r) registry \<Rightarrow> ('x, 'r) formatters \<Rightarrow> ('p \<Rightarrow> bool) \<Rightarrow> 'db
     \<Rightarrow> (pystr \<Rightarrow> 'r tool_result option) \<Rightarrow> 'p tool_call list
     \<Rightarrow> (pystr \<Rightarrow> 'r tool_result option)" where
  "record_all R F flag db m cs = foldl (\<lambda>m c. m(name c \<mapsto> entry R F flag db c)) m cs"

text \<open>The headers of the sections a formatter renders, top to bottom, and rows that carry
  a date and nothing else.\<close>

definition section_headers :: "'a formatted \<Rightarrow> pystr list" where
  "section_headers f = (case f of NotFound \<Rightarrow> [] | Found secs \<Rightarrow> map fst secs)"

definition outage_on :: "date \<Rightarrow> outage_row" where
  "outage_on d =
     \<lparr>outage_date = Some d, outage_type = None, outage_location = None,
      outage_affected_areas = None, outage_start = None, outage_end = None\<rparr>"

definition performance_on :: "date \<Rightarrow> performance_row" where
  "performance_on d =
     \<lparr>performance_date = Some d, performance_name = None, performance_location = None,
      performance_type = None, performance_start_time = None\<rparr>"

definition shift_on :: "date \<Rightarrow> hospital_shift_row" where
  "shift_on d =
     \<lparr>hospital_shift_date = Some d, hospital_name = None, hospital_shift_start_time = None,
      hospital_shift_end_time = None, specialties = None, address = None,
      phone_number = None\<rparr>"

definition screening_on :: "date \<Rightarrow> screening_row" where
  "screening_on d = ScreeningRowNoTime (Some d) (ascii ''Dune'') (ascii ''Odeon'') None None"

text \<open>The steps of \<open>normalize_text\<close> after the Unicode normalisation and case mapping, and
  strings without whitespace at either end.\<close>

definition clean :: "env \<Rightarrow> pystr \<Rightarrow> pystr" where
  "clean E y =
     collapse_ws (strip (filter (\<lambda>c. c \<notin> set punctuation_to_remove)
       (map (\<lambda>c. if c = 962 then 963 else c) (filter (\<lambda>c. \<not> category_Mn E c) y))))"

definition trimmed :: "pystr \<Rightarrow> bool" where
  "trimmed z = (z = [] \<or> (\<not> isspace (hd z) \<and> \<not> isspace (last z)))"

section \<open>Evaluation of the concrete library functions\<close>

lemma ascii_star: "ascii ''*'' = [42]"
  by (simp add: ascii_def)

lemma cpython_sel:
  "strptime_date cpython = strptime_ymd" "strptime_time cpython = strptime_hms"
  "nfc cpython = canonical_order" "nfd cpython = canonical_order" "lower cpython = ascii_lower"
  "category_Mn cpython = (\<lambda>c. c = 847)" "FUZZY_THRESHOLD cpython = 0.1"
  by (simp_all add: cpython_def)

lemmas eval_date =
  ascii_def strptime_ymd_def is_digit_def is_digit19_def days_in_month_def is_leap_def

section \<open>Date-list filters\<close>

lemma scan_dates_eq:
  "scan_dates parse xs (vs, b) =
     (vs @ List.map_filter parse (attempted xs), b \<or> attempted xs \<noteq> [])"
proof (induction xs arbitrary: vs b)
  case Nil
  then show ?case by (simp add: attempted_def)
next
  case (Cons x xs)
  then show ?case
    by (cases "parse x") (auto simp: attempted_def)
qed

lemma date_filter_eq:
  "date_filter E col dates =
     (if parsed_dates E dates \<noteq> [] then Some (InDates col (parsed_dates E dates))
      else if attempted dates \<noteq> [] then Some FalseP else None)"
  by (auto simp: date_filter_def scan_dates_eq parsed_dates_def attempted_def ascii_star)

lemma date_builders_eq:
  "(col, b) \<in> set date_builders \<Longrightarrow> b E dates = date_filter E col dates"
  by (auto simp: date_builders_def build_outage_date_filter_def build_screening_date_filter_def
        build_hospital_shift_date_filter_def build_performance_date_filter_def)

text \<open>The dates in the IN list are those that some attempted entry parses to, no others.\<close>

lemma parsed_dates_set:
  "set (parsed_dates E dates) =
     {d. \<exists>s \<in> set dates. s \<noteq> ascii ''*'' \<and> s \<noteq> [] \<and> strptime_date E s = Some d}"
  by (force simp: parsed_dates_def attempted_def List.map_filter_def)

lemma matches_FalseP: "\<not> matches P r FalseP"
  by (simp add: matches_def)

lemma matches_InDates: "matches P r (InDates col ds) \<longleftrightarrow> (\<exists>d \<in> set ds. r col = VDate d)"
  by (auto simp: matches_def split: sqlval.splits)

text \<open>
  Claim C3. Each of the four date builders parses every entry that is neither the wildcard
  nor empty and never raises (its result is a predicate or \<open>None\<close>); an entry that does not
  parse is skipped; when some entry parses, the result is the IN predicate over the parsed
  dates, in the order of the list; when entries were attempted and none parsed, it is the
  always-false predicate. This holds for every list, so also for those other than
  \<open>["*"]\<close>, and for every \<open>strptime\<close>.
\<close>

theorem date_filters_parse_entries:
  "\<forall>(col, b) \<in> set date_builders.
     (parsed_dates E dates \<noteq> [] \<longrightarrow>
        b E dates = Some (InDates col (parsed_dates E dates))) \<and>
     (attempted dates \<noteq> [] \<and> parsed_dates E dates = [] \<longrightarrow> b E dates = Some FalseP)"
  by (auto simp: date_builders_eq date_filter_eq)

theorem date_filters_parse_entries_witness:
  "build_outage_date_filter cpython
       [ascii ''2024-03-20'', ascii ''*'', ascii ''soon'', ascii ''2024-2-29'']
     = Some (InDates Outage_outage_date [Date 2024 3 20, Date 2024 2 29]) \<and>
   attempted [ascii ''2023-02-29'', []] \<noteq> [] \<and>
   build_hospital_shift_date_filter cpython [ascii ''2023-02-29'', []] = Some FalseP"
  using date_filters_parse_entries
          [of cpython "[ascii ''2024-03-20'', ascii ''*'', ascii ''soon'', ascii ''2024-2-29'']"]
        date_filters_parse_entries [of cpython "[ascii ''2023-02-29'', []]"]
  by (simp add: date_builders_def parsed_dates_def attempted_def cpython_sel eval_date)

text \<open>
  Claim C1, as amended. An entry that does not parse does not empty the result when another
  entry parses: the predicate of each date builder matches no row when entries were
  attempted and none of them parsed, and when some entry parsed it matches exactly the rows
  whose date is one of the parsed dates.
\<close>

theorem date_filters_unsatisfiable_or_membership:
  "\<forall>(col, b) \<in> set date_builders.
     (attempted dates \<noteq> [] \<and> parsed_dates E dates = [] \<longrightarrow>
        (\<exists>p. b E dates = Some p \<and> (\<forall>r. \<not> matches P r p))) \<and>
     (parsed_dates E dates \<noteq> [] \<longrightarrow>
        (\<exists>p. b E dates = Some p \<and>
             (\<forall>r. matches P r p \<longleftrightarrow> (\<exists>d \<in> set (parsed_dates E dates). r col = VDate d))))"
  by (auto simp: date_builders_eq date_filter_eq matches_FalseP matches_InDates)

theorem date_filters_unsatisfiable_or_membership_witness:
  "(\<exists>p. build_screening_date_filter cpython [ascii ''tomorrow'', ascii ''*''] = Some p \<and>
        (\<forall>r. \<not> matches pg_none r p)) \<and>
   (\<exists>p. build_performance_date_filter cpython [ascii ''2024-03-20'', ascii ''not-a-date'']
          = Some p \<and>
        (\<forall>r. matches pg_none r p \<longleftrightarrow> r Performance_performance_date = VDate (Date 2024 3 20)))"
  using date_filters_unsatisfiable_or_membership
          [of "[ascii ''tomorrow'', ascii ''*'']" cpython pg_none]
        date_filters_unsatisfiable_or_membership
          [of "[ascii ''2024-03-20'', ascii ''not-a-date'']" cpython pg_none]
  by (simp add: date_builders_def parsed_dates_def attempted_def cpython_sel eval_date)

text \<open>
  The claim as stated fails on the scenario of the specification: for the outage dates
  \<open>["2024-03-20", "not-a-date"]\<close> the second entry does not parse, and the predicate is
  the IN test over the first, which the rows of 20 March 2024 satisfy.
\<close>

theorem invalid_entry_beside_valid_date_counterexample:
  "ascii ''not-a-date'' \<noteq> ascii ''*'' \<and> ascii ''not-a-date'' \<noteq> [] \<and>
   strptime_date cpython (ascii ''not-a-date'') = None \<and>
   build_outage_date_filter cpython [ascii ''2024-03-20'', ascii ''not-a-date'']
     = Some (InDates Outage_outage_date [Date 2024 3 20]) \<and>
   matches pg_none (row_on (Date 2024 3 20)) (InDates Outage_outage_date [Date 2024 3 20])"
  by (simp add: build_outage_date_filter_def date_filter_def matches_def row_on_def cpython_sel
        eval_date)

section \<open>Placeholders and ordering\<close>

text \<open>
  Claim C8. The outage location builder, the outage affected-areas builder and the
  hospital-shift specialties builder return no predicate for every input, and the
  statements assembled from them do not depend on those arguments.
\<close>

theorem placeholder_filters_are_noops:
  "build_outage_location_filter locs = None \<and>
   build_outage_affected_areas_filter areas = None \<and>
   build_specialties_filter specs = None \<and>
   build_outages_statement E dates ty locs areas
     = build_outages_statement E dates ty locs' areas' \<and>
   build_hospital_shifts_statement E dates names t1 t2 specs ci
     = build_hospital_shifts_statement E dates names t1 t2 specs' ci"
  by (simp add: build_outage_location_filter_def build_outage_affected_areas_filter_def
        build_specialties_filter_def build_outages_statement_def
        build_hospital_shifts_statement_def)

theorem placeholder_filters_are_noops_witness:
  "build_outage_location_filter [ascii ''Kalamaria''] = None \<and>
   build_outage_affected_areas_filter [ascii ''Egnatia 12''] = None \<and>
   build_specialties_filter [ascii ''cardiology''] = None"
  using placeholder_filters_are_noops
          [of "[ascii ''Kalamaria'']" "[ascii ''Egnatia 12'']" "[ascii ''cardiology'']"]
  by simp

text \<open>
  Claim C5, as amended. The statements for screenings, performances and hospital shifts are
  ordered by date ascending and then by cinema and movie name (and screening time when it
  is selected), by performance name, and by hospital name, all ascending. The statement for
  outages is ordered by date descending and then by start time descending.
\<close>

theorem statement_orderings:
  "order_by (build_cinemas_statement E sd mv cn flag gn yr) =
     [(Screening_screening_date, Asc), (Cinema_cinema_name, Asc), (Movie_movie_name, Asc)]
     @ (if flag then [(Screening_screening_time, Asc)] else []) \<and>
   order_by (build_performances_statement E pd pn pl pt) =
     [(Performance_performance_date, Asc), (Performance_performance_name, Asc)] \<and>
   order_by (build_hospital_shifts_statement E hds hn t1 t2 sp ci) =
     [(HospitalShift_hospital_shift_date, Asc), (HospitalShift_hospital_name, Asc)] \<and>
   order_by (build_outages_statement E od ot ol oa) =
     [(Outage_outage_date, Desc), (Outage_outage_start, Desc)]"
  by (simp add: build_cinemas_statement_def build_performances_statement_def
        build_hospital_shifts_statement_def build_outages_statement_def Let_def)

theorem statement_orderings_witness:
  "order_by (build_cinemas_statement cpython [ascii ''2024-03-20''] [ascii ''*''] [ascii ''*'']
               True [ascii ''*''] None) =
     [(Screening_screening_date, Asc), (Cinema_cinema_name, Asc), (Movie_movie_name, Asc),
      (Screening_screening_time, Asc)]"
  using statement_orderings
          [of cpython "[ascii ''2024-03-20'']" "[ascii ''*'']" "[ascii ''*'']" True
              "[ascii ''*'']" None]
  by simp

text \<open>The claim as stated fails for outages: with the default arguments the statement is
  ordered by date descending, and no ordering term of it is ascending.\<close>

theorem outages_ordering_counterexample:
  "order_by (build_outages_statement cpython [ascii ''*''] (Some (ascii ''*'')) [ascii ''*'']
               [ascii ''*'']) =
     [(Outage_outage_date, Desc), (Outage_outage_start, Desc)] \<and>
   Asc \<notin> snd ` set (order_by (build_outages_statement cpython [ascii ''*'']
                               (Some (ascii ''*'')) [ascii ''*''] [ascii ''*'']))"
  by (simp add: build_outages_statement_def Let_def)


section \<open>Wildcard-only fields\<close>

lemma valid_terms_wildcards: "only_wildcards xs \<Longrightarrow> valid_terms_normalized E xs = []"
  by (induction xs) (auto simp: only_wildcards_def valid_terms_normalized_def)

lemma fuzzy_wildcards: "only_wildcards xs \<Longrightarrow> build_fuzzy_conditions E col xs th = []"
  by (simp add: build_fuzzy_conditions_def valid_terms_wildcards)

lemma regex_wildcards: "only_wildcards xs \<Longrightarrow> build_regex_conditions E col xs = []"
  by (simp add: build_regex_conditions_def valid_terms_wildcards)

lemma attempted_wildcards: "only_wildcards xs \<Longrightarrow> attempted xs = []"
  by (induction xs) (auto simp: only_wildcards_def attempted_def)

lemma date_wildcards:
  "only_wildcards xs \<Longrightarrow> (col, b) \<in> set date_builders \<Longrightarrow> b E xs = None"
  by (simp add: date_builders_eq date_filter_eq parsed_dates_def attempted_wildcards)

lemma cinema_wildcards: "only_wildcards xs \<Longrightarrow> build_cinema_filter E xs = None"
proof -
  assume "only_wildcards xs"
  then have "concat (map (\<lambda>cinema_name.
                if cinema_name = ascii ''*'' \<or> cinema_name = [] then []
                else [OrP [SimilarityGt Cinema_cinema_name cinema_name (FUZZY_THRESHOLD E),
                           ILike Cinema_cinema_name ([37] @ cinema_name @ [37])]]) xs) = []"
    by (induction xs) (auto simp: only_wildcards_def)
  then show ?thesis
    by (simp add: build_cinema_filter_def)
qed

lemma time_wildcards:
  "t1 = ascii ''*'' \<or> t1 = [] \<Longrightarrow> t2 = ascii ''*'' \<or> t2 = [] \<Longrightarrow> strptime_time E [] = None
     \<Longrightarrow> build_hospital_shift_time_filter E t1 t2 = None"
  by (auto simp: build_hospital_shift_time_filter_def)

lemma scalar_wildcards:
  "wildcard_scalar v \<Longrightarrow>
     build_outage_type_filter v = None \<and> build_performance_type_filter v = None"
  by (auto simp: wildcard_scalar_def build_outage_type_filter_def
        build_performance_type_filter_def)

lemma name_wildcards:
  "only_wildcards xs \<Longrightarrow>
     build_hospital_name_filter E xs = None \<and> build_movie_filter E xs = None \<and>
     build_genre_filter E xs = None \<and> build_performance_name_filter E xs = None \<and>
     build_performance_location_filter E xs = None"
  by (simp add: build_hospital_name_filter_def build_movie_filter_def build_genre_filter_def
        build_performance_name_filter_def build_performance_location_filter_def
        fuzzy_wildcards regex_wildcards)

lemma whereclause_apply_filters:
  "whereclause (apply_filters (select sel) fs) = None \<longleftrightarrow> fs = []"
  by (simp add: apply_filters_def select_def)

lemma append_filter_Nil: "append_filter fs f = [] \<longleftrightarrow> fs = [] \<and> f = None"
  by (cases f) (simp_all add: append_filter_def)

lemma where_outages:
  "whereclause (build_outages_statement E d ty l a) = None \<longleftrightarrow>
     build_outage_date_filter E d = None \<and> build_outage_type_filter ty = None \<and>
     build_outage_location_filter l = None \<and> build_outage_affected_areas_filter a = None"
  by (simp add: build_outages_statement_def Let_def whereclause_apply_filters
        append_filter_Nil)

lemma where_hospital:
  "whereclause (build_hospital_shifts_statement E d n t1 t2 sp ci) = None \<longleftrightarrow>
     build_hospital_shift_date_filter E d = None \<and> build_hospital_name_filter E n = None \<and>
     build_hospital_shift_time_filter E t1 t2 = None \<and> build_specialties_filter sp = None"
  by (simp add: build_hospital_shifts_statement_def Let_def whereclause_apply_filters
        append_filter_Nil)

lemma where_performances:
  "whereclause (build_performances_statement E d n l ty) = None \<longleftrightarrow>
     build_performance_date_filter E d = None \<and> build_performance_name_filter E n = None \<and>
     build_performance_location_filter E l = None \<and> build_performance_type_filter ty = None"
  by (simp add: build_performances_statement_def Let_def whereclause_apply_filters
        append_filter_Nil)

lemma where_cinemas:
  "whereclause (build_cinemas_statement E d m c flag g y) = None \<longleftrightarrow>
     build_screening_date_filter E d = None \<and> build_movie_filter E m = None \<and>
     build_cinema_filter E c = None \<and> build_genre_filter E g = None \<and>
     build_year_filter y = None"
  by (simp add: build_cinemas_statement_def Let_def apply_filters_def select_def
        append_filter_Nil)

text \<open>
  Claim C4. A field whose input holds only wildcards and empty strings gets no predicate
  from any builder: the two matching-condition builders return the empty list, and every
  per-entity builder returns \<open>None\<close>, for a list of such entries (the default \<open>["*"]\<close> and
  the empty list among them), for a scalar that is \<open>None\<close>, \<open>"*"\<close> or empty, for a missing
  year, and for time bounds that are \<open>"*"\<close> or empty (the empty string is not a time for
  \<open>strptime\<close>). And each assembler leaves the WHERE clause out exactly when none of its
  fields produced a predicate.
\<close>

theorem wildcard_only_fields_add_no_predicate:
  assumes "only_wildcards xs" and "wildcard_scalar v"
    and "t1 = ascii ''*'' \<or> t1 = []" and "t2 = ascii ''*'' \<or> t2 = []"
    and "strptime_time E [] = None"
  shows "build_fuzzy_conditions E col xs th = [] \<and> build_regex_conditions E col xs = [] \<and>
         (\<forall>(dcol, b) \<in> set date_builders. b E xs = None) \<and>
         build_outage_type_filter v = None \<and> build_outage_location_filter xs = None \<and>
         build_outage_affected_areas_filter xs = None \<and>
         build_hospital_name_filter E xs = None \<and> build_specialties_filter xs = None \<and>
         build_hospital_shift_time_filter E t1 t2 = None \<and>
         build_movie_filter E xs = None \<and> build_genre_filter E xs = None \<and>
         build_year_filter None = None \<and> build_cinema_filter E xs = None \<and>
         build_performance_name_filter E xs = None \<and>
         build_performance_location_filter E xs = None \<and>
         build_performance_type_filter v = None \<and>
         (whereclause (build_outages_statement E od ot ol oa) = None \<longleftrightarrow>
            build_outage_date_filter E od = None \<and> build_outage_type_filter ot = None \<and>
            build_outage_location_filter ol = None \<and>
            build_outage_affected_areas_filter oa = None) \<and>
         (whereclause (build_hospital_shifts_statement E hds hn ht1 ht2 hsp ci) = None \<longleftrightarrow>
            build_hospital_shift_date_filter E hds = None \<and>
            build_hospital_name_filter E hn = None \<and>
            build_hospital_shift_time_filter E ht1 ht2 = None \<and>
            build_specialties_filter hsp = None) \<and>
         (whereclause (build_cinemas_statement E sd mv cn flag gn yr) = None \<longleftrightarrow>
            build_screening_date_filter E sd = None \<and> build_movie_filter E mv = None \<and>
            build_cinema_filter E cn = None \<and> build_genre_filter E gn = None \<and>
            build_year_filter yr = None) \<and>
         (whereclause (build_performances_statement E pd pn pl pt) = None \<longleftrightarrow>
            build_performance_date_filter E pd = None \<and>
            build_performance_name_filter E pn = None \<and>
            build_performance_location_filter E pl = None \<and>
            build_performance_type_filter pt = None)"
proof -
  have dates: "\<forall>(dcol, b) \<in> set date_builders. b E xs = None"
    using assms(1) by (auto simp: date_wildcards)
  have placeholders: "build_outage_location_filter xs = None"
    "build_outage_affected_areas_filter xs = None" "build_specialties_filter xs = None"
    "build_year_filter None = None"
    by (simp_all add: build_outage_location_filter_def build_outage_affected_areas_filter_def
          build_specialties_filter_def build_year_filter_def)
  show ?thesis
    using dates placeholders fuzzy_wildcards[OF assms(1)] regex_wildcards[OF assms(1)]
      scalar_wildcards[OF assms(2)] name_wildcards[OF assms(1)] cinema_wildcards[OF assms(1)]
      time_wildcards[OF assms(3,4,5)]
    by (simp only: where_outages where_hospital where_cinemas where_performances simp_thms)
qed

theorem wildcard_only_fields_add_no_predicate_witness:
  "only_wildcards [ascii ''*'', [], ascii ''*''] \<and> wildcard_scalar (Some (ascii ''*'')) \<and>
   strptime_time cpython [] = None \<and>
   build_hospital_name_filter cpython [ascii ''*'', [], ascii ''*''] = None \<and>
   build_cinema_filter cpython [ascii ''*'', [], ascii ''*''] = None \<and>
   build_screening_date_filter cpython [ascii ''*'', [], ascii ''*''] = None \<and>
   build_outage_type_filter (Some (ascii ''*'')) = None \<and>
   build_hospital_shift_time_filter cpython (ascii ''*'') [] = None \<and>
   whereclause (build_cinemas_statement cpython [ascii ''*'', [], ascii ''*''] [] [ascii ''*'']
                  False [[]] None) = None"
proof -
  have h1: "only_wildcards [ascii ''*'', [], ascii ''*'']" "only_wildcards []"
    "only_wildcards [ascii ''*'']" "only_wildcards [[]]"
    by (simp_all add: only_wildcards_def)
  have h2: "wildcard_scalar (Some (ascii ''*''))"
    by (simp add: wildcard_scalar_def)
  have h3: "ascii ''*'' = ascii ''*'' \<or> ascii ''*'' = []" "[] = ascii ''*'' \<or> [] = ([]::pystr)"
    by simp_all
  have h4: "strptime_time cpython [] = None"
    by (simp add: cpython_sel strptime_hms_def)
  note w = wildcard_only_fields_add_no_predicate [OF _ h2 h3 h4]
  show ?thesis
    using w [OF h1(1), where sd = "[ascii ''*'', [], ascii ''*'']" and mv = "[]"
               and cn = "[ascii ''*'']" and flag = False and gn = "[[]]" and yr = None]
      w [OF h1(2)] w [OF h1(3)] w [OF h1(4)] h1 h2 h4
    by (simp add: date_builders_def)
qed

section \<open>The executor\<close>

lemma run_no_raise:
  "\<forall>c \<in> set cs. \<not> raises R db c \<Longrightarrow>
   run_tool_calls R F flag db cs st =
     (None, st\<lparr>awaited := awaited st @ filter (registered R) cs,
               all_tool_results := record_all R F flag db (all_tool_results st) cs\<rparr>)"
proof (induction cs arbitrary: st)
  case Nil
  then show ?case by (simp add: record_all_def)
next
  case (Cons c cs)
  then show ?case
    by (auto simp: record_all_def raises_def registered_def entry_def not_available_def Let_def
          split: option.splits sum.splits)
qed

lemma run_append:
  "run_tool_calls R F flag db (xs @ ys) st =
     (case run_tool_calls R F flag db xs st of
        (Some e, st') \<Rightarrow> (Some e, st')
      | (None, st') \<Rightarrow> run_tool_calls R F flag db ys st')"
  by (induction xs arbitrary: st) (auto simp: Let_def split: option.splits sum.splits)

lemma run_returns_no_raise:
  "run_tool_calls R F flag db cs st = (None, st') \<Longrightarrow> \<forall>c \<in> set cs. \<not> raises R db c"
proof (induction cs arbitrary: st)
  case Nil
  then show ?case by simp
next
  case (Cons c cs)
  show ?case
  proof (cases "R (name c)")
    case None
    with Cons.prems have "run_tool_calls R F flag db cs
        (st\<lparr>all_tool_results := (all_tool_results st)(name c \<mapsto> not_available (name c))\<rparr>)
        = (None, st')"
      by (simp add: not_available_def Let_def)
    from Cons.IH[OF this] None show ?thesis
      by (simp add: raises_def)
  next
    case (Some tool_func)
    show ?thesis
    proof (cases "tool_func (params c) db")
      case (Inl e)
      with Some Cons.prems show ?thesis by (simp add: Let_def)
    next
      case (Inr raw)
      with Some Cons.prems have "run_tool_calls R F flag db cs
          (st\<lparr>awaited := awaited st @ [c],
              all_tool_results := (all_tool_results st)(name c \<mapsto> format_entry F flag c raw)\<rparr>)
          = (None, st')"
        by (simp add: Let_def)
      from Cons.IH[OF this] Some Inr show ?thesis
        by (simp add: raises_def)
    qed
  qed
qed

lemma record_all_lookup:
  "record_all R F flag db m cs k =
     (case filter (\<lambda>c. name c = k) cs of
        [] \<Rightarrow> m k
      | c # cs' \<Rightarrow> Some (entry R F flag db (last (c # cs'))))"
proof (induction cs arbitrary: m)
  case Nil
  then show ?case by (simp add: record_all_def)
next
  case (Cons c cs)
  then show ?case
    by (auto simp: record_all_def split: list.splits)
qed

lemma test_raises:
  "raises test_registry () (call ''outages'' p) = False"
  "raises test_registry () (call ''cinemas'' p) = True"
  "raises test_registry () (call ''performances'' p) = False"
  "raises test_registry () (call ''tool_missing'' p) = False"
  by (simp_all add: raises_def test_registry_def call_def ascii_def)

text \<open>
  Claim C2. When the invocations before invocation \<open>c\<close> complete and the tool function of
  \<open>c\<close> raises \<open>e\<close>, the executor awaits no tool of the invocations after \<open>c\<close> (the log ends
  with \<open>c\<close>), \<open>e\<close> reaches the caller in place of a result map, and the transaction is
  rolled back.
\<close>

theorem execution_failure_aborts_and_rolls_back:
  assumes "tool_calls = pre @ c # post"
    and "\<forall>c' \<in> set pre. \<not> raises R db c'"
    and "R (name c) = Some tool_func"
    and "tool_func (params c) db = Inl e"
  shows "fst (execute_tools_sequentially R F flag tool_calls db) = Inl e \<and>
         tx (snd (execute_tools_sequentially R F flag tool_calls db)) = RolledBack \<and>
         awaited (snd (execute_tools_sequentially R F flag tool_calls db))
           = filter (registered R) pre @ [c]"
  using assms
  by (simp add: execute_tools_sequentially_def run_append run_no_raise Let_def)

theorem execution_failure_aborts_and_rolls_back_witness:
  "fst (execute_tools_sequentially test_registry test_formatters (\<lambda>p. False)
          [call ''outages'' 1, call ''cinemas'' 1, call ''performances'' 1] ()) = Inl ValueError \<and>
   tx (snd (execute_tools_sequentially test_registry test_formatters (\<lambda>p. False)
          [call ''outages'' 1, call ''cinemas'' 1, call ''performances'' 1] ())) = RolledBack \<and>
   awaited (snd (execute_tools_sequentially test_registry test_formatters (\<lambda>p. False)
          [call ''outages'' 1, call ''cinemas'' 1, call ''performances'' 1] ()))
     = [call ''outages'' 1, call ''cinemas'' 1]"
proof -
  have h1: "[call ''outages'' 1, call ''cinemas'' 1, call ''performances'' 1]
              = [call ''outages'' 1] @ call ''cinemas'' 1 # [call ''performances'' 1]"
    by simp
  have h2: "\<forall>c' \<in> set [call ''outages'' 1]. \<not> raises test_registry () c'"
    by (simp add: test_raises)
  have h3: "test_registry (name (call ''cinemas'' 1)) = Some (\<lambda>p db. Inl ValueError)"
    by (simp add: test_registry_def call_def ascii_def)
  have h4: "(\<lambda>p db. Inl ValueError) (params (call ''cinemas'' 1)) () = Inl ValueError"
    by simp
  have reg: "registered test_registry (call ''outages'' 1)"
    by (simp add: registered_def test_registry_def call_def ascii_def)
  show ?thesis
    using execution_failure_aborts_and_rolls_back [OF h1 h2 h3 h4, of test_formatters "\<lambda>p. False"]
      reg
    by simp
qed

text \<open>
  Claim C7. In a batch with an invocation \<open>c\<close> whose tool is not registered, where no
  registered tool raises, the executor returns a map and commits; the map holds the
  not-available error object under the name of \<open>c\<close>; the tool of every registered
  invocation has been awaited, in order; and under the name of each invocation the map
  holds the entry of the last invocation of that name.
\<close>

theorem missing_tool_is_recorded_without_abort:
  assumes "c \<in> set tool_calls"
    and "R (name c) = None"
    and "\<forall>c' \<in> set tool_calls. \<not> raises R db c'"
  shows "\<exists>m st. execute_tools_sequentially R F flag tool_calls db = (Inr m, st) \<and>
           tx st = Committed \<and>
           m (name c) = Some (not_available (name c)) \<and>
           awaited st = filter (registered R) tool_calls \<and>
           (\<forall>c' \<in> set tool_calls.
              m (name c')
                = Some (entry R F flag db (last (filter (\<lambda>x. name x = name c') tool_calls))))"
proof -
  have nonempty: "filter (\<lambda>x. name x = name c') tool_calls \<noteq> []"
    if "c' \<in> set tool_calls" for c'
    using that by (auto simp: filter_empty_conv)
  have missing: "entry R F flag db x = not_available (name c)" if "name x = name c" for x
    using that assms(2) by (simp add: entry_def)
  have "last (filter (\<lambda>x. name x = name c) tool_calls)
          \<in> set (filter (\<lambda>x. name x = name c) tool_calls)"
    using nonempty[OF assms(1)] by (rule last_in_set)
  then have "name (last (filter (\<lambda>x. name x = name c) tool_calls)) = name c"
    by simp
  then have "entry R F flag db (last (filter (\<lambda>x. name x = name c) tool_calls))
               = not_available (name c)"
    by (rule missing)
  then show ?thesis
    using assms(1,3) nonempty
    by (auto simp: execute_tools_sequentially_def run_no_raise record_all_lookup
          split: list.splits)
qed

theorem missing_tool_is_recorded_without_abort_witness:
  "\<exists>m st. execute_tools_sequentially test_registry test_formatters (\<lambda>p. False)
             [call ''outages'' 1, call ''tool_missing'' 1, call ''performances'' 1] () = (Inr m, st) \<and>
     tx st = Committed \<and>
     m (ascii ''tool_missing'')
       = Some (ErrorObj (ascii ''Tool '' @ [39] @ ascii ''tool_missing'' @ [39]
                          @ ascii '' not available.'')) \<and>
     m (ascii ''outages'') = Some (Formatted [35]) \<and>
     m (ascii ''performances'') = Some (Formatted [35, 35]) \<and>
     awaited st = [call ''outages'' 1, call ''performances'' 1]"
proof -
  have h1: "call ''tool_missing'' 1
              \<in> set [call ''outages'' 1, call ''tool_missing'' 1, call ''performances'' 1]"
    by simp
  have h2: "test_registry (name (call ''tool_missing'' 1)) = None"
    by (simp add: test_registry_def call_def ascii_def)
  have h3: "\<forall>c' \<in> set [call ''outages'' 1, call ''tool_missing'' 1, call ''performances'' 1].
              \<not> raises test_registry () c'"
    by (simp add: test_raises)
  have names: "name (call ''outages'' 1) = ascii ''outages''"
    "name (call ''tool_missing'' 1) = ascii ''tool_missing''"
    "name (call ''performances'' 1) = ascii ''performances''"
    by (simp_all add: call_def)
  have distinct_names: "ascii ''outages'' \<noteq> ascii ''tool_missing''"
    "ascii ''outages'' \<noteq> ascii ''performances''"
    "ascii ''tool_missing'' \<noteq> ascii ''performances''"
    by (simp_all add: ascii_def)
  have entries: "entry test_registry test_formatters (\<lambda>p. False) () (call ''outages'' 1)
                   = Formatted [35]"
    "entry test_registry test_formatters (\<lambda>p. False) () (call ''performances'' 1)
       = Formatted [35, 35]"
    by (simp_all add: entry_def format_entry_def test_registry_def test_formatters_def call_def
          ascii_def numeral_2_eq_2)
  have reg: "registered test_registry (call ''outages'' 1)"
    "\<not> registered test_registry (call ''tool_missing'' 1)"
    "registered test_registry (call ''performances'' 1)"
    by (simp_all add: registered_def test_registry_def call_def ascii_def)
  from missing_tool_is_recorded_without_abort [OF h1 h2 h3, of test_formatters "\<lambda>p. False"]
  obtain m st where
    "execute_tools_sequentially test_registry test_formatters (\<lambda>p. False)
       [call ''outages'' 1, call ''tool_missing'' 1, call ''performances'' 1] () = (Inr m, st)"
    "tx st = Committed"
    "m (name (call ''tool_missing'' 1)) = Some (not_available (name (call ''tool_missing'' 1)))"
    "awaited st = filter (registered test_registry)
                    [call ''outages'' 1, call ''tool_missing'' 1, call ''performances'' 1]"
    "\<forall>c' \<in> set [call ''outages'' 1, call ''tool_missing'' 1, call ''performances'' 1].
       m (name c') = Some (entry test_registry test_formatters (\<lambda>p. False) ()
         (last (filter (\<lambda>x. name x = name c')
            [call ''outages'' 1, call ''tool_missing'' 1, call ''performances'' 1])))"
    by blast
  then show ?thesis
    using names distinct_names entries reg
    by (auto simp: not_available_def quoted_def)
qed

text \<open>
  Claim C10. When the executor returns a map for a batch in which \<open>c1\<close> and a later \<open>c2\<close>
  have the same tool name and no invocation after \<open>c2\<close> has it, the one entry of the map
  under that name is the entry of \<open>c2\<close>: what \<open>c1\<close> left there has been overwritten.
\<close>

theorem last_same_named_invocation_wins:
  assumes "fst (execute_tools_sequentially R F flag tool_calls db) = Inr m"
    and "tool_calls = xs @ c1 # ys @ c2 # zs"
    and "name c1 = name c2"
    and "\<forall>c \<in> set zs. name c \<noteq> name c2"
  shows "m (name c2) = Some (entry R F flag db c2)"
proof -
  obtain st' where run: "run_tool_calls R F flag db tool_calls
      \<lparr>all_tool_results = Map.empty, awaited = [], tx = InTransaction\<rparr> = (None, st')"
    using assms(1)
    by (auto simp: execute_tools_sequentially_def split: prod.splits option.splits)
  then have nr: "\<forall>c \<in> set tool_calls. \<not> raises R db c"
    by (rule run_returns_no_raise)
  have "filter (\<lambda>x. name x = name c2) zs = []"
    using assms(4) by (auto simp: filter_empty_conv)
  then have "last (filter (\<lambda>x. name x = name c2) tool_calls) = c2"
    using assms(2,3) by simp
  moreover have "filter (\<lambda>x. name x = name c2) tool_calls \<noteq> []"
    using assms(2) by (auto simp: filter_empty_conv)
  ultimately show ?thesis
    using assms(1) nr
    by (auto simp: execute_tools_sequentially_def run_no_raise record_all_lookup
          split: list.splits)
qed


theorem last_same_named_invocation_wins_witness:
  "\<exists>m. fst (execute_tools_sequentially test_registry test_formatters (\<lambda>p. False)
              [call ''outages'' 1, call ''performances'' 1, call ''outages'' 3] ()) = Inr m \<and>
       m (ascii ''outages'') = Some (Formatted [35, 35, 35])"
proof -
  have nr: "\<forall>c \<in> set [call ''outages'' 1, call ''performances'' 1, call ''outages'' 3].
              \<not> raises test_registry () c"
    by (simp add: test_raises)
  have "\<exists>m. fst (execute_tools_sequentially test_registry test_formatters (\<lambda>p. False)
                [call ''outages'' 1, call ''performances'' 1, call ''outages'' 3] ()) = Inr m"
    unfolding execute_tools_sequentially_def Let_def run_no_raise [OF nr] by simp
  then obtain m where m:
    "fst (execute_tools_sequentially test_registry test_formatters (\<lambda>p. False)
            [call ''outages'' 1, call ''performances'' 1, call ''outages'' 3] ()) = Inr m"
    by blast
  have h2: "[call ''outages'' 1, call ''performances'' 1, call ''outages'' 3]
              = [] @ call ''outages'' 1 # [call ''performances'' 1] @ call ''outages'' 3 # []"
    by simp
  have h3: "name (call ''outages'' 1) = name (call ''outages'' 3)"
    by (simp add: call_def)
  have h4: "\<forall>c \<in> set []. name c \<noteq> name (call ''outages'' 3)"
    by simp
  have e: "entry test_registry test_formatters (\<lambda>p. False) () (call ''outages'' 3)
             = Formatted [35, 35, 35]"
    by (simp add: entry_def format_entry_def test_registry_def test_formatters_def call_def
          ascii_def numeral_3_eq_3)
  have "m (name (call ''outages'' 3)) = Some (Formatted [35, 35, 35])"
    using last_same_named_invocation_wins [OF m h2 h3 h4] e by simp
  then show ?thesis
    using m by (auto simp: call_def)
qed

section \<open>Order of the rendered sections\<close>

lemmas eval_fmt =
  section_headers_def date_str_of_def strftime_dmy_def pad2_def pad4_def ascii_def

lemma fst_comp_case: "fst \<circ> (\<lambda>(k, v). (k, g k v)) = fst"
  by (auto simp: fun_eq_iff)

text \<open>What the code does: in every formatter the sections follow the order of their
  header strings, compared as strings.\<close>

lemma section_headers_sorted_as_strings:
  "sorted (section_headers (format_outages rows))"
  "sorted (section_headers (format_performances prows))"
  "sorted (section_headers (format_hospital_shifts srows))"
  "sorted (section_headers (format_screenings crows flag))"
  by (simp_all add: section_headers_def format_outages_def format_performances_def
        format_hospital_shifts_def format_screenings_def Let_def fst_comp_case)

text \<open>
  Claim C6 asks for the sections in ascending calendar order. The headers are dates
  rendered as day/month/year, and the code sorts the rendered strings: for rows dated
  1 February 2024 and 15 January 2024 every formatter puts the section of 1 February first.
\<close>

theorem sections_follow_rendered_date_strings:
  "section_headers (format_outages [outage_on (Date 2024 2 1), outage_on (Date 2024 1 15)])
     = [ascii ''01/02/2024'', ascii ''15/01/2024''] \<and>
   section_headers (format_performances
       [Some (performance_on (Date 2024 2 1)), Some (performance_on (Date 2024 1 15))])
     = [ascii ''01/02/2024'', ascii ''15/01/2024''] \<and>
   section_headers (format_hospital_shifts
       [shift_on (Date 2024 2 1), shift_on (Date 2024 1 15)])
     = [ascii ''01/02/2024'', ascii ''15/01/2024''] \<and>
   section_headers (format_screenings
       [screening_on (Date 2024 2 1), screening_on (Date 2024 1 15)] False)
     = [ascii ''01/02/2024'', ascii ''15/01/2024'']"
  by (simp add: format_outages_def format_performances_def format_hospital_shifts_def
        format_screenings_def outage_on_def performance_on_def shift_on_def screening_on_def
        eval_fmt)


section \<open>Idempotence of the normalizer\<close>

lemma dropWhile_hd: "dropWhile P xs = [] \<or> \<not> P (hd (dropWhile P xs))"
  by (induction xs) auto

lemma dropWhile_id: "xs = [] \<or> \<not> P (hd xs) \<Longrightarrow> dropWhile P xs = xs"
  by (cases xs) auto

lemma trimmed_strip: "trimmed (strip z)"
proof (cases "dropWhile isspace (rev (dropWhile isspace z)) = []")
  case True
  then show ?thesis by (simp add: trimmed_def strip_def)
next
  case False
  let ?a = "dropWhile isspace z"
  let ?b = "dropWhile isspace (rev ?a)"
  from False have b: "\<not> isspace (hd ?b)"
    using dropWhile_hd[of isspace "rev ?a"] by blast
  have a_ne: "?a \<noteq> []"
    using False by (metis dropWhile.simps(1) rev.simps(1))
  then have a: "\<not> isspace (hd ?a)"
    using dropWhile_hd[of isspace z] by blast
  have "last ?b = last (rev ?a)"
    using False by (metis dropWhile_eq_Nil_conv last_in_set takeWhile_dropWhile_id last_appendR)
  then have "last ?b = hd ?a"
    using a_ne by (simp add: last_rev)
  with a b False show ?thesis
    by (simp add: trimmed_def strip_def hd_rev last_rev)
qed

lemma strip_trimmed: "trimmed z \<Longrightarrow> strip z = z"
proof (cases z)
  case Nil
  then show ?thesis by (simp add: strip_def)
next
  case (Cons c cs)
  assume "trimmed z"
  with Cons have h: "\<not> isspace c" and l: "\<not> isspace (last z)"
    by (simp_all add: trimmed_def)
  from h Cons have "dropWhile isspace z = z" by simp
  moreover have "hd (rev z) = last z"
    using Cons by (simp add: hd_rev)
  with l have "\<not> isspace (hd (rev z))"
    by metis
  then have "dropWhile isspace (rev z) = rev z"
    by (intro dropWhile_id disjI2)
  ultimately show ?thesis by (simp add: strip_def)
qed

lemma collapse_ws_last:
  "z \<noteq> [] \<Longrightarrow> \<not> isspace (last z) \<Longrightarrow>
     collapse_ws z \<noteq> [] \<and> last (collapse_ws z) = last z"
proof (induction z rule: collapse_ws.induct)
  case 1
  then show ?case by simp
next
  case (2 c cs)
  show ?case
  proof (cases "isspace c")
    case True
    with 2(3,4) have cs: "cs \<noteq> []" by auto
    with 2(4) have lcs: "\<not> isspace (last cs)" by simp
    then have dne: "dropWhile isspace cs \<noteq> []"
      using cs by (metis dropWhile_eq_Nil_conv last_in_set)
    have dl: "last (dropWhile isspace cs) = last cs"
      using dne by (metis last_appendR takeWhile_dropWhile_id)
    from 2(1)[OF True dne] dl lcs
    have "collapse_ws (dropWhile isspace cs) \<noteq> []"
      "last (collapse_ws (dropWhile isspace cs)) = last cs"
      by simp_all
    with True cs show ?thesis by simp
  next
    case False
    show ?thesis
    proof (cases "cs = []")
      case True
      with False show ?thesis by simp
    next
      case ne: False
      with 2(4) have "\<not> isspace (last cs)" by simp
      from 2(2)[OF False ne this] False ne show ?thesis by simp
    qed
  qed
qed

lemma collapse_ws_hd: "z \<noteq> [] \<Longrightarrow> \<not> isspace (hd z) \<Longrightarrow> hd (collapse_ws z) = hd z"
  by (cases z) auto

lemma trimmed_collapse: "trimmed z \<Longrightarrow> trimmed (collapse_ws z)"
proof (cases "z = []")
  case True
  then show ?thesis by (simp add: trimmed_def)
next
  case False
  assume "trimmed z"
  with False have h: "\<not> isspace (hd z)" and l: "\<not> isspace (last z)"
    by (simp_all add: trimmed_def)
  from collapse_ws_last[OF False l] collapse_ws_hd[OF False h] h l
  show ?thesis by (simp add: trimmed_def)
qed

lemma dropWhile_collapse:
  "w = [] \<or> \<not> isspace (hd w) \<Longrightarrow> dropWhile isspace (collapse_ws w) = collapse_ws w"
  by (cases w) auto

lemma collapse_ws_idem: "collapse_ws (collapse_ws z) = collapse_ws z"
proof (induction z rule: collapse_ws.induct)
  case 1
  then show ?case by simp
next
  case (2 c cs)
  show ?case
  proof (cases "isspace c")
    case True
    have "dropWhile isspace (collapse_ws (dropWhile isspace cs))
            = collapse_ws (dropWhile isspace cs)"
      by (rule dropWhile_collapse) (rule dropWhile_hd)
    moreover have "isspace 32" by (simp add: isspace_def)
    ultimately show ?thesis
      using True 2(1)[OF True] by simp
  next
    case False
    with 2(2)[OF False] show ?thesis by simp
  qed
qed

lemma set_collapse_ws: "set (collapse_ws z) \<subseteq> insert 32 (set z)"
proof (induction z rule: collapse_ws.induct)
  case 1
  then show ?case by simp
next
  case (2 c cs)
  show ?case
  proof (cases "isspace c")
    case True
    have "set (dropWhile isspace cs) \<subseteq> set cs"
      by (rule set_dropWhileD[THEN subsetI])
    with 2(1)[OF True] True show ?thesis by auto
  next
    case False
    with 2(2)[OF False] show ?thesis by auto
  qed
qed

lemma set_strip: "set (strip z) \<subseteq> set z"
proof
  fix x assume "x \<in> set (strip z)"
  then have "x \<in> set (dropWhile isspace (rev (dropWhile isspace z)))"
    by (simp add: strip_def)
  then have "x \<in> set (rev (dropWhile isspace z))" by (rule set_dropWhileD)
  then have "x \<in> set (dropWhile isspace z)" by simp
  then show "x \<in> set z" by (rule set_dropWhileD)
qed

lemma space_not_punct: "32 \<notin> set punctuation_to_remove"
  by (simp add: punctuation_to_remove_def)

lemma clean_chars:
  assumes "\<not> category_Mn E 963" "\<not> category_Mn E 32" "c \<in> set (clean E y)"
  shows "\<not> category_Mn E c \<and> c \<noteq> 962 \<and> c \<notin> set punctuation_to_remove"
proof -
  let ?x = "filter (\<lambda>c. c \<notin> set punctuation_to_remove)
              (map (\<lambda>c. if c = 962 then 963 else c) (filter (\<lambda>c. \<not> category_Mn E c) y))"
  from assms(3) have "c \<in> insert 32 (set (strip ?x))"
    using set_collapse_ws[of "strip ?x"] by (auto simp: clean_def)
  then have "c = 32 \<or> c \<in> set ?x"
    using set_strip[of ?x] by auto
  then show ?thesis
  proof
    assume "c = 32"
    with assms(2) space_not_punct show ?thesis by simp
  next
    assume "c \<in> set ?x"
    with assms(1) show ?thesis by (auto split: if_splits)
  qed
qed

lemma clean_fixed:
  assumes "\<not> category_Mn E 963" "\<not> category_Mn E 32"
  shows "clean E (clean E y) = clean E y"
proof -
  let ?t = "clean E y"
  have good: "\<forall>c \<in> set ?t. \<not> category_Mn E c \<and> c \<noteq> 962 \<and> c \<notin> set punctuation_to_remove"
    using clean_chars[OF assms] by blast
  then have f1: "filter (\<lambda>c. \<not> category_Mn E c) ?t = ?t"
    by (simp add: filter_id_conv)
  from good have f2: "map (\<lambda>c. if c = 962 then 963 else c) ?t = ?t"
    by (simp add: map_idI)
  from good have f3: "filter (\<lambda>c. c \<notin> set punctuation_to_remove) ?t = ?t"
    by (simp add: filter_id_conv)
  have "trimmed ?t"
    unfolding clean_def by (rule trimmed_collapse) (rule trimmed_strip)
  then have f4: "strip ?t = ?t" by (rule strip_trimmed)
  have f5: "collapse_ws ?t = ?t"
    unfolding clean_def by (rule collapse_ws_idem)
  have "clean E ?t = collapse_ws (strip (filter (\<lambda>c. c \<notin> set punctuation_to_remove)
          (map (\<lambda>c. if c = 962 then 963 else c) (filter (\<lambda>c. \<not> category_Mn E c) ?t))))"
    by (simp add: clean_def)
  also have "\<dots> = ?t"
    by (simp only: f1 f2 f3 f4 f5)
  finally show ?thesis .
qed

lemma normalize_text_Some:
  "normalize_text E (Some s) =
     (if s = [] then Some [] else Some (clean E (nfd E (lower E (nfc E s)))))"
  by (simp add: normalize_text_def clean_def Let_def)

text \<open>
  Claim C9, as amended. Normalizing twice gives what normalizing once gives whenever the
  Unicode steps (NFC, lower-casing, NFD) leave the once-normalized string as it is. The
  remaining steps of the code (dropping marks of category Mn, the final sigma, the
  punctuation, the surrounding whitespace and the whitespace runs) are idempotent on every
  string; the two table facts used are that sigma and the space are not of category Mn.
\<close>

theorem normalize_text_idempotent_on_stable_strings:
  assumes "\<not> category_Mn E 963" and "\<not> category_Mn E 32"
    and "\<forall>t. normalize_text E text = Some t \<longrightarrow> nfd E (lower E (nfc E t)) = t"
  shows "normalize_text E (normalize_text E text) = normalize_text E text"
proof (cases "text")
  case None
  then show ?thesis by (simp add: normalize_text_def)
next
  case (Some s)
  show ?thesis
  proof (cases "s = []")
    case True
    with Some show ?thesis by (simp add: normalize_text_Some)
  next
    case False
    let ?t = "clean E (nfd E (lower E (nfc E s)))"
    from Some False have nt: "normalize_text E text = Some ?t"
      by (simp add: normalize_text_Some)
    with assms(3) have st: "nfd E (lower E (nfc E ?t)) = ?t" by blast
    have "normalize_text E (Some ?t) = Some ?t"
      using st clean_fixed[OF assms(1,2)] by (simp add: normalize_text_Some)
    with nt show ?thesis by simp
  qed
qed

lemmas eval_norm =
  normalize_text_def cpython_sel ccc_def ascii_lower_def strip_def isspace_def
  punctuation_to_remove_def Let_def

theorem normalize_text_idempotent_on_stable_strings_witness:
  "normalize_text cpython (Some (ascii ''Hello,  World!'' @ [32, 962]))
     = Some (ascii ''hello world '' @ [963]) \<and>
   normalize_text cpython (normalize_text cpython (Some (ascii ''Hello,  World!'' @ [32, 962])))
     = normalize_text cpython (Some (ascii ''Hello,  World!'' @ [32, 962]))"
proof -
  have h1: "\<not> category_Mn cpython 963" and h2: "\<not> category_Mn cpython 32"
    by (simp_all add: cpython_sel)
  have n: "normalize_text cpython (Some (ascii ''Hello,  World!'' @ [32, 962]))
             = Some (ascii ''hello world '' @ [963])"
    by (simp add: eval_norm ascii_def)
  have h3: "\<forall>t. normalize_text cpython (Some (ascii ''Hello,  World!'' @ [32, 962])) = Some t
              \<longrightarrow> nfd cpython (lower cpython (nfc cpython t)) = t"
    unfolding n by (simp add: cpython_sel ccc_def ascii_lower_def ascii_def)
  show ?thesis
    using normalize_text_idempotent_on_stable_strings [OF h1 h2 h3] n by simp
qed

text \<open>
  The claim as stated fails. In the string U+302E, full stop, U+1D165 the full stop keeps
  the two spacing marks (category Mc, combining classes 224 and 216) apart; the first pass
  removes it, and the second pass begins by putting the now adjacent marks into canonical
  order, so that it returns them swapped.
\<close>

theorem normalize_text_not_idempotent_counterexample:
  "normalize_text cpython (Some [12334, 46, 119141]) = Some [12334, 119141] \<and>
   normalize_text cpython (normalize_text cpython (Some [12334, 46, 119141]))
     = Some [119141, 12334]"
  by (simp add: eval_norm)

end
